theory Spec2Isabelle
  imports Complex_Main "HOL-Library.Sublist"
begin

section \<open>JavaScript values the handlers rely on\<close>

text \<open>
  \<^verbatim>\<open>String.prototype.includes\<close>: does \<open>sub\<close> occur in \<open>s\<close> as a contiguous run of
  characters? The search tries every start position from left to right.
\<close>

fun str_includes :: "string \<Rightarrow> string \<Rightarrow> bool" where
  "str_includes [] sub = (sub = [])"
| "str_includes (c # cs) sub = (prefix sub (c # cs) \<or> str_includes cs sub)"

text \<open>
  A value that is a string or \<^verbatim>\<open>undefined\<close> is a \<open>string option\<close>. It is truthy when it is
  a non-empty string; \<^verbatim>\<open>a || b\<close> is \<open>a\<close> when \<open>a\<close> is truthy and \<open>b\<close> otherwise.
\<close>

definition truthy :: "string option \<Rightarrow> bool" where
  "truthy v = (case v of None \<Rightarrow> False | Some s \<Rightarrow> s \<noteq> [])"

definition js_or :: "string option \<Rightarrow> string option \<Rightarrow> string option" where
  "js_or a b = (if truthy a then a else b)"

text \<open>
  \<^verbatim>\<open>res.json(obj)\<close> sends \<^verbatim>\<open>JSON.stringify(obj)\<close>, which leaves out every property whose
  value is \<^verbatim>\<open>undefined\<close>. All property values the handlers send are strings.
\<close>

type_synonym json_body = "(string \<times> string) list"

definition json_object :: "(string \<times> string option) list \<Rightarrow> json_body" where
  "json_object props = List.map_filter (\<lambda>(k, v). map_option (Pair k) v) props"

record http_response =
  res_status :: int
  res_json :: json_body

section \<open>The rate limiter\<close>

record rate_record =
  count :: nat
  lastReset :: int

type_synonym rate_map = "string \<rightharpoonup> rate_record"

definition WINDOW_MS :: int where
  "WINDOW_MS = 60 * 1000"

definition MAX_REQUESTS :: nat where
  "MAX_REQUESTS = 20"

text \<open>
  The value of the \<^verbatim>\<open>x-forwarded-for\<close> header: missing, one string, or an array of strings.
\<close>

datatype header_value = HeaderAbsent | HeaderString string | HeaderArray "string list"

text \<open>
  The key under which a request is counted. A JavaScript \<^verbatim>\<open>Map\<close> compares a string key by
  its characters and an array key by identity. The array of a request's header is a new object
  for every request, so \<^verbatim>\<open>rateLimit.get\<close> never finds a record under it, and a record stored
  under it is never read again: only the string-keyed part of the map is observable.
\<close>

datatype client_key = StringKey string | ArrayKey "string list"

definition rateLimit_get :: "rate_map \<Rightarrow> client_key \<Rightarrow> rate_record option" where
  "rateLimit_get rateLimit ip = (case ip of StringKey s \<Rightarrow> rateLimit s | ArrayKey _ \<Rightarrow> None)"

definition rateLimit_set :: "rate_map \<Rightarrow> client_key \<Rightarrow> rate_record \<Rightarrow> rate_map" where
  "rateLimit_set rateLimit ip r = (case ip of StringKey s \<Rightarrow> rateLimit(s \<mapsto> r) | ArrayKey _ \<Rightarrow> rateLimit)"

text \<open>
  The rate limiting logic, the same text in \<^verbatim>\<open>rateLimiterMiddleware\<close> of the Express server
  and at the head of the serverless handlers. \<open>now\<close> is the value of \<^verbatim>\<open>Date.now()\<close>. The
  result is whether the request is admitted, and the map afterwards.
\<close>

definition rateLimiterMiddleware :: "client_key \<Rightarrow> int \<Rightarrow> rate_map \<Rightarrow> bool \<times> rate_map" where
  "rateLimiterMiddleware ip now rateLimit =
     (let record0 = (case rateLimit_get rateLimit ip of
                       None \<Rightarrow> \<lparr>count = 0, lastReset = now\<rparr>
                     | Some r \<Rightarrow> if now - lastReset r > WINDOW_MS
                                then \<lparr>count = 0, lastReset = now\<rparr> else r)
      in if count record0 \<ge> MAX_REQUESTS then (False, rateLimit)
         else (True, rateLimit_set rateLimit ip (record0\<lparr>count := count record0 + 1\<rparr>)))"

definition too_many_requests :: http_response where
  "too_many_requests =
     \<lparr>res_status = 429,
      res_json = json_object [(''error'', Some ''Too many requests. Please try again later.'')]\<rparr>"

section \<open>Requests and the upstream generation service\<close>

text \<open>
  The value of \<^verbatim>\<open>req.body\<close>: \<^verbatim>\<open>undefined\<close> when no body was parsed, \<^verbatim>\<open>null\<close>, or a value
  of which the handlers read the properties \<^verbatim>\<open>text\<close> and \<^verbatim>\<open>apiKey\<close>, each a string or
  missing.
\<close>

record body =
  body_text :: "string option"
  body_apiKey :: "string option"

datatype body_value = Undefined | Null | Object body

text \<open>
  What the handlers read of a request: the method, the \<^verbatim>\<open>x-forwarded-for\<close> header, the
  address of the socket, and the body.
\<close>

record request =
  req_method :: string
  forwarded_for :: header_value
  remoteAddress :: "string option"
  req_body :: body_value

text \<open>
  The rewrite prompt is a fixed template that the handlers pass on without reading it.
\<close>

datatype system_instruction = SYSTEM_INSTRUCTION

record generation_config =
  systemInstruction :: system_instruction
  temperature :: real
  topP :: real
  topK :: nat

text \<open>
  One call of \<^verbatim>\<open>ai.models.generateContent\<close>: the key the client was built with, the model,
  the text part of the single user message, and the sampling configuration when one is given.
\<close>

record gen_call =
  call_apiKey :: string
  call_model :: string
  call_text :: "string option"
  call_config :: "generation_config option"

text \<open>
  What the handlers read of a thrown value: \<^verbatim>\<open>status\<close>, \<^verbatim>\<open>message\<close>, the nested
  \<^verbatim>\<open>error.code\<close> and \<^verbatim>\<open>error.status\<close>, and the text that \<^verbatim>\<open>JSON.stringify\<close> gives for
  the whole value. Each property may be missing; a status is a number and a message is a
  string, as in the errors of the generation client.
\<close>

record nested_error =
  nested_code :: "int option"
  nested_status :: "string option"

record api_error =
  err_status :: "int option"
  err_message :: "string option"
  err_error :: "nested_error option"
  err_json :: string

text \<open>
  The result of a successful call; its \<^verbatim>\<open>text\<close> accessor yields a string or \<^verbatim>\<open>undefined\<close>.
\<close>

record gen_result =
  result_text :: "string option"

text \<open>
  The upstream service is a parameter: given a call and its own state \<open>'u\<close>, it throws an
  error or returns a result, and moves to a new state.
\<close>

type_synonym 'u generateContent = "gen_call \<Rightarrow> 'u \<Rightarrow> (api_error + gen_result) \<times> 'u"

definition pro_call :: "string \<Rightarrow> string option \<Rightarrow> gen_call" where
  "pro_call keyToUse text =
     \<lparr>call_apiKey = keyToUse, call_model = ''gemini-3.1-pro-preview'', call_text = text,
      call_config = Some \<lparr>systemInstruction = SYSTEM_INSTRUCTION,
                          temperature = 1.1, topP = 0.98, topK = 100\<rparr>\<rparr>"

definition flash_call :: "string \<Rightarrow> string option \<Rightarrow> gen_call" where
  "flash_call keyToUse text =
     \<lparr>call_apiKey = keyToUse, call_model = ''gemini-3-flash-preview'', call_text = text,
      call_config = Some \<lparr>systemInstruction = SYSTEM_INSTRUCTION,
                          temperature = 1.0, topP = 0.95, topK = 64\<rparr>\<rparr>"

definition verify_call :: "string \<Rightarrow> gen_call" where
  "verify_call apiKey =
     \<lparr>call_apiKey = apiKey, call_model = ''gemini-3-flash-preview'', call_text = Some ''Hi'',
      call_config = None\<rparr>"

section \<open>The rewrite flow\<close>

definition isQuotaError :: "api_error \<Rightarrow> bool" where
  "isQuotaError proError =
     (err_status proError = Some 429 \<or>
      (case err_message proError of None \<Rightarrow> False | Some m \<Rightarrow> str_includes m ''429'') \<or>
      (case err_message proError of None \<Rightarrow> False
       | Some m \<Rightarrow> str_includes m ''RESOURCE_EXHAUSTED'') \<or>
      (case err_error proError of None \<Rightarrow> False | Some e \<Rightarrow> nested_code e = Some 429) \<or>
      (case err_error proError of None \<Rightarrow> False
       | Some e \<Rightarrow> nested_status e = Some ''RESOURCE_EXHAUSTED'') \<or>
      str_includes (err_json proError) ''RESOURCE_EXHAUSTED'')"

text \<open>
  The outer \<^verbatim>\<open>catch\<close> of the rewrite flow: \<^verbatim>\<open>error.status || 500\<close> and
  \<^verbatim>\<open>error.message || "Internal Server Error"\<close>.
\<close>

definition server_error :: "api_error \<Rightarrow> http_response" where
  "server_error error =
     (let status = (case err_status error of None \<Rightarrow> 500 | Some s \<Rightarrow> if s = 0 then 500 else s);
          message = (case err_message error of None \<Rightarrow> ''Internal Server Error''
                     | Some m \<Rightarrow> if m = [] then ''Internal Server Error'' else m)
      in \<lparr>res_status = status, res_json = json_object [(''error'', Some message)]\<rparr>)"

definition key_missing :: http_response where
  "key_missing =
     \<lparr>res_status = 401,
      res_json = json_object
        [(''error'', Some ''API Key is missing. Please configure it in Vercel or provide one.'')]\<rparr>"

text \<open>
  \<^verbatim>\<open>const { text, apiKey } = req.body\<close> throws a TypeError when \<^verbatim>\<open>req.body\<close> is
  \<^verbatim>\<open>undefined\<close> or \<^verbatim>\<open>null\<close>. The error has a message, here the one of V8, and no status,
  and it serializes to the empty object.
\<close>

definition rewrite_type_error :: "body_value \<Rightarrow> api_error" where
  "rewrite_type_error v =
     \<lparr>err_status = None,
      err_message = Some (case v of
          Null \<Rightarrow> ''Cannot destructure property 'text' of 'req.body' as it is null.''
        | _ \<Rightarrow> ''Cannot destructure property 'text' of 'req.body' as it is undefined.''),
      err_error = None, err_json = ''{}''\<rparr>"

text \<open>
  The \<^verbatim>\<open>try\<close> block of the rewrite flow with its \<^verbatim>\<open>catch\<close>, the same text in the
  serverless handler and in the Express route. \<open>GEMINI_API_KEY\<close> is the value of the
  environment variable. The result is the response, the upstream calls made in order, and
  the upstream state afterwards.
\<close>

definition rewrite_try ::
  "string option \<Rightarrow> 'u generateContent \<Rightarrow> request \<Rightarrow> 'u \<Rightarrow> http_response \<times> gen_call list \<times> 'u" where
  "rewrite_try GEMINI_API_KEY generateContent req u =
     (case req_body req of
        Undefined \<Rightarrow> (server_error (rewrite_type_error Undefined), [], u)
      | Null \<Rightarrow> (server_error (rewrite_type_error Null), [], u)
      | Object b \<Rightarrow>
     (let text = body_text b; apiKey = body_apiKey b in
      case js_or apiKey GEMINI_API_KEY of
        None \<Rightarrow> (key_missing, [], u)
      | Some keyToUse \<Rightarrow>
          if keyToUse = [] then (key_missing, [], u)
          else
            (case generateContent (pro_call keyToUse text) u of
               (Inr result, u1) \<Rightarrow>
                 (\<lparr>res_status = 200, res_json = json_object [(''text'', result_text result)]\<rparr>,
                  [pro_call keyToUse text], u1)
             | (Inl proError, u1) \<Rightarrow>
                 if isQuotaError proError then
                   (case generateContent (flash_call keyToUse text) u1 of
                      (Inr result, u2) \<Rightarrow>
                        (\<lparr>res_status = 200,
                          res_json = json_object [(''text'', result_text result)]\<rparr>,
                         [pro_call keyToUse text, flash_call keyToUse text], u2)
                    | (Inl error, u2) \<Rightarrow>
                        (server_error error,
                         [pro_call keyToUse text, flash_call keyToUse text], u2))
                 else (server_error proError, [pro_call keyToUse text], u1))))"

section \<open>The verify flow\<close>

text \<open>\<^verbatim>\<open>const { apiKey } = req.body\<close> on a body that is \<^verbatim>\<open>undefined\<close> or \<^verbatim>\<open>null\<close>.\<close>

definition verify_type_error :: "body_value \<Rightarrow> api_error" where
  "verify_type_error v =
     \<lparr>err_status = None,
      err_message = Some (case v of
          Null \<Rightarrow> ''Cannot destructure property 'apiKey' of 'req.body' as it is null.''
        | _ \<Rightarrow> ''Cannot destructure property 'apiKey' of 'req.body' as it is undefined.''),
      err_error = None, err_json = ''{}''\<rparr>"

text \<open>
  The \<^verbatim>\<open>catch\<close> of the verify flow: status 400, status \<open>invalid\<close>, and
  \<^verbatim>\<open>error.message\<close> as it is.
\<close>

definition verify_invalid :: "api_error \<Rightarrow> http_response" where
  "verify_invalid error =
     \<lparr>res_status = 400,
      res_json = json_object [(''status'', Some ''invalid''), (''error'', err_message error)]\<rparr>"

text \<open>
  The \<^verbatim>\<open>try\<close> block of the verify flow with its \<^verbatim>\<open>catch\<close>, the same text in the
  serverless handlers and in the Express route.
\<close>

definition verify_try ::
  "'u generateContent \<Rightarrow> request \<Rightarrow> 'u \<Rightarrow> http_response \<times> gen_call list \<times> 'u" where
  "verify_try generateContent req u =
     (case req_body req of
        Undefined \<Rightarrow> (verify_invalid (verify_type_error Undefined), [], u)
      | Null \<Rightarrow> (verify_invalid (verify_type_error Null), [], u)
      | Object b \<Rightarrow>
     (case body_apiKey b of
        None \<Rightarrow> (\<lparr>res_status = 400,
                  res_json = json_object [(''error'', Some ''API Key is required'')]\<rparr>, [], u)
      | Some apiKey \<Rightarrow>
          if apiKey = [] then
            (\<lparr>res_status = 400,
              res_json = json_object [(''error'', Some ''API Key is required'')]\<rparr>, [], u)
          else
            (case generateContent (verify_call apiKey) u of
               (Inr result, u1) \<Rightarrow>
                 (\<lparr>res_status = 200, res_json = json_object [(''status'', Some ''valid'')]\<rparr>,
                  [verify_call apiKey], u1)
             | (Inl error, u1) \<Rightarrow> (verify_invalid error, [verify_call apiKey], u1))))"

section \<open>The handlers\<close>

text \<open>
  What a handler does with one request: the reply, the upstream calls it made, and the
  limiter map and the upstream state afterwards. A reply is a JSON response sent by the
  handler or, in the Express server, either handing the request on to the middleware after
  the API routes, or the error page (an HTML document, with the status of the error) that
  Express sends when a middleware fails.
\<close>

datatype reply = Sent http_response | NextMiddleware | ErrorPage int

record 'u outcome =
  response :: reply
  calls :: "gen_call list"
  limiter :: rate_map
  upstream :: 'u

definition method_not_allowed :: http_response where
  "method_not_allowed =
     \<lparr>res_status = 405, res_json = json_object [(''error'', Some ''Method Not Allowed'')]\<rparr>"

subsection \<open>Serverless rewrite handler\<close>

text \<open>\<^verbatim>\<open>const ip = req.headers['x-forwarded-for'] || 'unknown'\<close>\<close>

definition rewrite_ip :: "request \<Rightarrow> client_key" where
  "rewrite_ip req =
     (case forwarded_for req of
        HeaderAbsent \<Rightarrow> StringKey ''unknown''
      | HeaderString s \<Rightarrow> if s = [] then StringKey ''unknown'' else StringKey s
      | HeaderArray xs \<Rightarrow> ArrayKey xs)"

text \<open>The handler from the method check on, once the limiter has admitted the request.\<close>

definition rewrite_admitted ::
  "string option \<Rightarrow> 'u generateContent \<Rightarrow> request \<Rightarrow> rate_map \<Rightarrow> 'u \<Rightarrow> 'u outcome" where
  "rewrite_admitted GEMINI_API_KEY generateContent req rateLimit u =
     (if req_method req \<noteq> ''POST'' then
        \<lparr>response = Sent method_not_allowed, calls = [], limiter = rateLimit, upstream = u\<rparr>
      else
        (case rewrite_try GEMINI_API_KEY generateContent req u of
           (res, cs, u') \<Rightarrow>
             \<lparr>response = Sent res, calls = cs, limiter = rateLimit, upstream = u'\<rparr>))"

definition rewrite_handler ::
  "string option \<Rightarrow> 'u generateContent \<Rightarrow> request \<Rightarrow> int \<Rightarrow> rate_map \<Rightarrow> 'u \<Rightarrow> 'u outcome" where
  "rewrite_handler GEMINI_API_KEY generateContent req now rateLimit u =
     (case rateLimiterMiddleware (rewrite_ip req) now rateLimit of
        (False, _) \<Rightarrow>
          \<lparr>response = Sent too_many_requests, calls = [], limiter = rateLimit, upstream = u\<rparr>
      | (True, rateLimit') \<Rightarrow>
          rewrite_admitted GEMINI_API_KEY generateContent req rateLimit' u)"

subsection \<open>Serverless verify handlers\<close>

text \<open>
  The verify handler without a limiter: the method check, then the verify flow. It has no
  limiter map of its own; the map is passed through unchanged.
\<close>

definition verify_handler ::
  "'u generateContent \<Rightarrow> request \<Rightarrow> rate_map \<Rightarrow> 'u \<Rightarrow> 'u outcome" where
  "verify_handler generateContent req rateLimit u =
     (if req_method req \<noteq> ''POST'' then
        \<lparr>response = Sent method_not_allowed, calls = [], limiter = rateLimit, upstream = u\<rparr>
      else
        (case verify_try generateContent req u of
           (res, cs, u') \<Rightarrow>
             \<lparr>response = Sent res, calls = cs, limiter = rateLimit, upstream = u'\<rparr>))"

text \<open>
  The verify handler with a limiter of its own:
  \<^verbatim>\<open>(Array.isArray(forwarded) ? forwarded[0] : forwarded) || 'unknown'\<close>
\<close>

definition first_forwarded :: "header_value \<Rightarrow> string option" where
  "first_forwarded forwarded =
     (case forwarded of
        HeaderAbsent \<Rightarrow> None
      | HeaderString s \<Rightarrow> Some s
      | HeaderArray xs \<Rightarrow> (case xs of [] \<Rightarrow> None | x # _ \<Rightarrow> Some x))"

definition verify_ip :: "request \<Rightarrow> client_key" where
  "verify_ip req =
     (case js_or (first_forwarded (forwarded_for req)) (Some ''unknown'') of
        None \<Rightarrow> StringKey ''unknown'' | Some ip \<Rightarrow> StringKey ip)"

definition verify_handler_limited ::
  "'u generateContent \<Rightarrow> request \<Rightarrow> int \<Rightarrow> rate_map \<Rightarrow> 'u \<Rightarrow> 'u outcome" where
  "verify_handler_limited generateContent req now rateLimit u =
     (case rateLimiterMiddleware (verify_ip req) now rateLimit of
        (False, _) \<Rightarrow>
          \<lparr>response = Sent too_many_requests, calls = [], limiter = rateLimit, upstream = u\<rparr>
      | (True, rateLimit') \<Rightarrow> verify_handler generateContent req rateLimit' u)"

subsection \<open>Express server\<close>

text \<open>
  Where Express routes the URL of a request: to one of the two API routes, elsewhere under
  \<^verbatim>\<open>/api/\<close>, or outside it.
\<close>

datatype endpoint = ApiVerify | ApiRewrite | ApiOther | NotApi

text \<open>
  \<^verbatim>\<open>(Array.isArray(forwarded) ? forwarded[0] : forwarded) || req.socket.remoteAddress || 'unknown'\<close>
\<close>

definition express_ip :: "request \<Rightarrow> client_key" where
  "express_ip req =
     (case js_or (js_or (first_forwarded (forwarded_for req)) (remoteAddress req))
                 (Some ''unknown'') of
        None \<Rightarrow> StringKey ''unknown'' | Some ip \<Rightarrow> StringKey ip)"

text \<open>
  The routes after the middleware: \<^verbatim>\<open>app.post\<close> answers POST requests only; every other
  request goes on to the Vite or static middleware, which is not part of this model.
\<close>

definition express_routes ::
  "string option \<Rightarrow> 'u generateContent \<Rightarrow> endpoint \<Rightarrow> request \<Rightarrow> rate_map \<Rightarrow> 'u \<Rightarrow> 'u outcome" where
  "express_routes GEMINI_API_KEY generateContent route req rateLimit u =
     (if req_method req = ''POST'' \<and> route = ApiVerify then
        (case verify_try generateContent req u of
           (res, cs, u') \<Rightarrow>
             \<lparr>response = Sent res, calls = cs, limiter = rateLimit, upstream = u'\<rparr>)
      else if req_method req = ''POST'' \<and> route = ApiRewrite then
        (case rewrite_try GEMINI_API_KEY generateContent req u of
           (res, cs, u') \<Rightarrow>
             \<lparr>response = Sent res, calls = cs, limiter = rateLimit, upstream = u'\<rparr>)
      else \<lparr>response = NextMiddleware, calls = [], limiter = rateLimit, upstream = u\<rparr>)"

text \<open>
  The part of \<^verbatim>\<open>startServer\<close> that comes after the body parser, for a request that
  \<^verbatim>\<open>express.json()\<close> has passed on: the limiter under \<^verbatim>\<open>/api/\<close>, then the routes. The
  parser itself is the first step of \<open>startServer\<close> below.
\<close>

definition express_server ::
  "string option \<Rightarrow> 'u generateContent \<Rightarrow> endpoint \<Rightarrow> request \<Rightarrow> int \<Rightarrow> rate_map \<Rightarrow> 'u
     \<Rightarrow> 'u outcome" where
  "express_server GEMINI_API_KEY generateContent route req now rateLimit u =
     (if route = NotApi then
        \<lparr>response = NextMiddleware, calls = [], limiter = rateLimit, upstream = u\<rparr>
      else
        (case rateLimiterMiddleware (express_ip req) now rateLimit of
           (False, _) \<Rightarrow>
             \<lparr>response = Sent too_many_requests, calls = [], limiter = rateLimit, upstream = u\<rparr>
         | (True, rateLimit') \<Rightarrow>
             express_routes GEMINI_API_KEY generateContent route req rateLimit' u))"

text \<open>
  The whole application: \<^verbatim>\<open>express.json()\<close> comes first, for every route. It either fails,
  with an error whose status (400 for JSON that does not parse) Express answers with its
  error page before any other middleware runs, or it passes the request on, with
  \<^verbatim>\<open>req.body\<close> set to the parsed object or left undefined.
\<close>

datatype incoming = Unparsable int | Parsed request

definition startServer ::
  "string option \<Rightarrow> 'u generateContent \<Rightarrow> endpoint \<times> incoming \<Rightarrow> int \<Rightarrow> rate_map \<Rightarrow> 'u
     \<Rightarrow> 'u outcome" where
  "startServer GEMINI_API_KEY generateContent = (\<lambda>(route, inc) now rateLimit u.
     case inc of
       Unparsable status \<Rightarrow>
         \<lparr>response = ErrorPage status, calls = [], limiter = rateLimit, upstream = u\<rparr>
     | Parsed req \<Rightarrow> express_server GEMINI_API_KEY generateContent route req now rateLimit u)"

section \<open>Serving a sequence of requests\<close>

text \<open>
  The limiter section of a handler runs without interruption before the first \<^verbatim>\<open>await\<close>, so
  the limiter map sees the requests one after another, in their order of arrival. \<open>serve\<close>
  feeds a list of requests, each with its \<^verbatim>\<open>Date.now()\<close>, to a handler and returns the
  limiter map and the upstream state after the last one.
\<close>

fun serve ::
  "('r \<Rightarrow> int \<Rightarrow> rate_map \<Rightarrow> 'u \<Rightarrow> 'u outcome) \<Rightarrow> ('r \<times> int) list \<Rightarrow> rate_map \<Rightarrow> 'u
     \<Rightarrow> rate_map \<times> 'u" where
  "serve handler [] rateLimit u = (rateLimit, u)"
| "serve handler ((req, now) # rest) rateLimit u =
     (let out = handler req now rateLimit u
      in serve handler rest (limiter out) (upstream out))"

text \<open>A request to the Express server comes with the route its URL resolves to.\<close>

definition express_app ::
  "string option \<Rightarrow> 'u generateContent \<Rightarrow> endpoint \<times> request \<Rightarrow> int \<Rightarrow> rate_map \<Rightarrow> 'u
     \<Rightarrow> 'u outcome" where
  "express_app GEMINI_API_KEY generateContent = (\<lambda>(route, req).
     express_server GEMINI_API_KEY generateContent route req)"

text \<open>
  Which requests a limiter counts for the client \<open>c\<close>: the serverless rewrite handler every
  request whose key is \<open>c\<close>, the Express server every request under \<^verbatim>\<open>/api/\<close> whose key is \<open>c\<close>.
\<close>

definition rewrite_from :: "string \<Rightarrow> request \<times> int \<Rightarrow> bool" where
  "rewrite_from c = (\<lambda>(req, now). rewrite_ip req = StringKey c)"

definition express_from :: "string \<Rightarrow> (endpoint \<times> request) \<times> int \<Rightarrow> bool" where
  "express_from c = (\<lambda>((route, req), now). route \<noteq> NotApi \<and> express_ip req = StringKey c)"

text \<open>
  The same for the serverless verify handler with a limiter, and for the whole Express
  application, whose limiter sees only the requests that the body parser passes on.
\<close>

definition verify_from :: "string \<Rightarrow> request \<times> int \<Rightarrow> bool" where
  "verify_from c = (\<lambda>(req, now). verify_ip req = StringKey c)"

definition startServer_from :: "string \<Rightarrow> (endpoint \<times> incoming) \<times> int \<Rightarrow> bool" where
  "startServer_from c = (\<lambda>((route, inc), now).
     case inc of
       Unparsable status \<Rightarrow> False
     | Parsed req \<Rightarrow> route \<noteq> NotApi \<and> express_ip req = StringKey c)"

text \<open>
  The serverless deployment: the rewrite module and the verify module each declare a
  \<^verbatim>\<open>rateLimit\<close> map of their own, so a request changes only the map of the module that
  handles it. \<open>serverless_serve\<close> feeds a list of requests, each with its operation, to the
  two handlers and returns the rewrite map, the verify map and the upstream state.
\<close>

datatype operation = Rewrite | Verify

fun serverless_serve ::
  "string option \<Rightarrow> 'u generateContent \<Rightarrow> (operation \<times> request \<times> int) list \<Rightarrow>
     rate_map \<Rightarrow> rate_map \<Rightarrow> 'u \<Rightarrow> rate_map \<times> rate_map \<times> 'u" where
  "serverless_serve GEMINI_API_KEY generateContent [] rewriteLimit verifyLimit u =
     (rewriteLimit, verifyLimit, u)"
| "serverless_serve GEMINI_API_KEY generateContent ((Rewrite, req, now) # rest)
     rewriteLimit verifyLimit u =
     (let out = rewrite_handler GEMINI_API_KEY generateContent req now rewriteLimit u
      in serverless_serve GEMINI_API_KEY generateContent rest (limiter out) verifyLimit
           (upstream out))"
| "serverless_serve GEMINI_API_KEY generateContent ((Verify, req, now) # rest)
     rewriteLimit verifyLimit u =
     (let out = verify_handler_limited generateContent req now verifyLimit u
      in serverless_serve GEMINI_API_KEY generateContent rest rewriteLimit (limiter out)
           (upstream out))"

section \<open>The specification's credential resolver\<close>

text \<open>
  The specification resolves the credential from the request's key \<^emph>\<open>trimmed\<close>. This is
  \<^verbatim>\<open>String.prototype.trim\<close> on ASCII white space, written after the specification's words
  to compare the handlers with it; no handler calls it.
\<close>

definition is_space :: "char \<Rightarrow> bool" where
  "is_space ch = (of_char ch \<in> {9, 10, 11, 12, 13, 32 :: nat})"

definition spec_trim :: "string \<Rightarrow> string" where
  "spec_trim s = rev (dropWhile is_space (rev (dropWhile is_space s)))"

section \<open>Sample requests and upstream behaviours\<close>

definition network_error :: api_error where
  "network_error =
     \<lparr>err_status = None, err_message = Some ''fetch failed'', err_error = None,
      err_json = ''{}''\<rparr>"

text \<open>
  An upstream that plays a script: each call consumes the next outcome of the list, and a
  call after the end of the script fails like a broken connection.
\<close>

fun scripted :: "(api_error + gen_result) list generateContent" where
  "scripted call [] = (Inl network_error, [])"
| "scripted call (r # rs) = (r, rs)"

text \<open>An upstream that answers every call with the same text.\<close>

definition accepting :: "unit generateContent" where
  "accepting call u = (Inr \<lparr>result_text = Some ''Hello''\<rparr>, u)"

definition sample_post :: request where
  "sample_post =
     \<lparr>req_method = ''POST'', forwarded_for = HeaderString ''203.0.113.7'',
      remoteAddress = Some ''10.0.0.7'',
      req_body = Object \<lparr>body_text = Some ''The weather is nice today.'',
                          body_apiKey = Some ''user-key''\<rparr>\<rparr>"

text \<open>The same request with another key, or none, in its body.\<close>

definition sample_with_key :: "string option \<Rightarrow> request" where
  "sample_with_key k =
     sample_post\<lparr>req_body := Object \<lparr>body_text = Some ''The weather is nice today.'',
                                     body_apiKey = k\<rparr>\<rparr>"

definition quota_error :: api_error where
  "quota_error =
     \<lparr>err_status = Some 429, err_message = Some ''model overloaded'', err_error = None,
      err_json = ''{}''\<rparr>"

definition unavailable_error :: api_error where
  "unavailable_error =
     \<lparr>err_status = Some 503, err_message = Some ''The model is overloaded.'',
      err_error = Some \<lparr>nested_code = Some 503, nested_status = Some ''UNAVAILABLE''\<rparr>,
      err_json = ''{}''\<rparr>"

section \<open>Facts shared by the proofs\<close>

lemma str_includes_sublist: "str_includes s sub = sublist sub s"
  by (induction s) (simp_all add: sublist_Cons_right)

lemma str_includes_iff: "str_includes s sub \<longleftrightarrow> (\<exists>pre post. s = pre @ sub @ post)"
  by (simp add: str_includes_sublist sublist_def)

lemma rewrite_try_cases:
  assumes "req_body req = Object b"
    and "js_or (body_apiKey b) env = Some k" and "k \<noteq> []"
    and "gc (pro_call k (body_text b)) u = (p, u1)"
    and "gc (flash_call k (body_text b)) u1 = (s, u2)"
  shows "rewrite_try env gc req u =
     (case p of
        Inr r \<Rightarrow> (\<lparr>res_status = 200, res_json = json_object [(''text'', result_text r)]\<rparr>,
                  [pro_call k (body_text b)], u1)
      | Inl e \<Rightarrow>
          if isQuotaError e then
            ((case s of
                Inr r \<Rightarrow> \<lparr>res_status = 200, res_json = json_object [(''text'', result_text r)]\<rparr>
              | Inl e2 \<Rightarrow> server_error e2),
             [pro_call k (body_text b), flash_call k (body_text b)], u2)
          else (server_error e, [pro_call k (body_text b)], u1))"
  using assms by (simp add: rewrite_try_def Let_def split: sum.splits)

lemma rewrite_try_no_body:
  assumes "req_body req = Undefined \<or> req_body req = Null"
  shows "rewrite_try env gc req u = (server_error (rewrite_type_error (req_body req)), [], u)"
  using assms by (auto simp: rewrite_try_def)

lemma rewrite_try_no_key:
  assumes "req_body req = Object b" and "\<not> truthy (js_or (body_apiKey b) env)"
  shows "rewrite_try env gc req u = (key_missing, [], u)"
  using assms by (auto simp: rewrite_try_def Let_def truthy_def split: option.splits)

lemma server_error_explicit:
  "server_error e =
     \<lparr>res_status = (case err_status e of None \<Rightarrow> 500 | Some st \<Rightarrow> if st = 0 then 500 else st),
      res_json = [(''error'', case err_message e of
                                None \<Rightarrow> ''Internal Server Error''
                              | Some m \<Rightarrow> if m = [] then ''Internal Server Error'' else m)]\<rparr>"
  by (simp add: server_error_def json_object_def Let_def)

lemma text_payload:
  "json_object [(''text'', t)] = (case t of None \<Rightarrow> [] | Some x \<Rightarrow> [(''text'', x)])"
  by (cases t) (simp_all add: json_object_def)

lemma verify_invalid_explicit:
  "verify_invalid e =
     \<lparr>res_status = 400,
      res_json = (case err_message e of
                    None \<Rightarrow> [(''status'', ''invalid'')]
                  | Some m \<Rightarrow> [(''status'', ''invalid''), (''error'', m)])\<rparr>"
  by (cases "err_message e") (simp_all add: verify_invalid_def json_object_def)

lemma rewrite_handler_admitted:
  "rateLimiterMiddleware (rewrite_ip req) now rl = (True, rl') \<Longrightarrow>
   rewrite_handler env gc req now rl u = rewrite_admitted env gc req rl' u"
  by (simp add: rewrite_handler_def)

lemma rewrite_handler_rejected:
  "rateLimiterMiddleware (rewrite_ip req) now rl = (False, rl') \<Longrightarrow>
   rewrite_handler env gc req now rl u =
     \<lparr>response = Sent too_many_requests, calls = [], limiter = rl, upstream = u\<rparr>"
  by (simp add: rewrite_handler_def)

lemma express_server_admitted:
  "route \<noteq> NotApi \<Longrightarrow> rateLimiterMiddleware (express_ip req) now rl = (True, rl') \<Longrightarrow>
   express_server env gc route req now rl u = express_routes env gc route req rl' u"
  by (simp add: express_server_def)

lemma express_server_rejected:
  "route \<noteq> NotApi \<Longrightarrow> rateLimiterMiddleware (express_ip req) now rl = (False, rl') \<Longrightarrow>
   express_server env gc route req now rl u =
     \<lparr>response = Sent too_many_requests, calls = [], limiter = rl, upstream = u\<rparr>"
  by (simp add: express_server_def)

lemma startServer_parsed [simp]:
  "startServer env gc (route, Parsed req) now rl u = express_server env gc route req now rl u"
  by (simp add: startServer_def)

lemma startServer_unparsable [simp]:
  "startServer env gc (route, Unparsable st) now rl u =
     \<lparr>response = ErrorPage st, calls = [], limiter = rl, upstream = u\<rparr>"
  by (simp add: startServer_def)

lemma rewrite_post_outcome:
  assumes "(rateLimiterMiddleware (rewrite_ip req) now rl = (True, rl')
              \<and> out = rewrite_handler env gc req now rl u)
         \<or> (rateLimiterMiddleware (express_ip req) now rl = (True, rl')
              \<and> out = startServer env gc (ApiRewrite, Parsed req) now rl u)"
    and "req_method req = ''POST''"
  shows "out = (case rewrite_try env gc req u of
                  (res, cs, u') \<Rightarrow>
                    \<lparr>response = Sent res, calls = cs, limiter = rl', upstream = u'\<rparr>)"
  using assms
  by (auto simp: rewrite_handler_admitted express_server_admitted rewrite_admitted_def
        express_routes_def)

lemma sample_post_admitted_rewrite:
  "rateLimiterMiddleware (rewrite_ip sample_post) 0 Map.empty =
     (True, [''203.0.113.7'' \<mapsto> \<lparr>count = 1, lastReset = 0\<rparr>])"
  by (simp add: rateLimiterMiddleware_def rewrite_ip_def sample_post_def rateLimit_get_def
        rateLimit_set_def MAX_REQUESTS_def)

lemma sample_post_admitted_express:
  "rateLimiterMiddleware (express_ip sample_post) 0 Map.empty =
     (True, [''203.0.113.7'' \<mapsto> \<lparr>count = 1, lastReset = 0\<rparr>])"
  by (simp add: rateLimiterMiddleware_def express_ip_def sample_post_def rateLimit_get_def
        rateLimit_set_def MAX_REQUESTS_def first_forwarded_def js_or_def truthy_def)

lemma sample_post_fields:
  "req_method sample_post = ''POST''"
  "req_body sample_post =
     Object \<lparr>body_text = Some ''The weather is nice today.'', body_apiKey = Some ''user-key''\<rparr>"
  "js_or (Some ''user-key'') None = Some ''user-key''"
  by (simp_all add: sample_post_def js_or_def truthy_def)

lemma sample_with_key_fields:
  "req_method (sample_with_key k) = ''POST''"
  "req_body (sample_with_key k) =
     Object \<lparr>body_text = Some ''The weather is nice today.'', body_apiKey = k\<rparr>"
  "rewrite_ip (sample_with_key k) = rewrite_ip sample_post"
  "express_ip (sample_with_key k) = express_ip sample_post"
  "verify_ip (sample_with_key k) = express_ip sample_post"
  by (simp_all add: sample_with_key_def sample_post_def rewrite_ip_def express_ip_def
        verify_ip_def first_forwarded_def js_or_def truthy_def)

lemma sample_errors:
  "isQuotaError quota_error" "\<not> isQuotaError unavailable_error"
  "\<not> isQuotaError network_error"
  by (simp_all add: isQuotaError_def quota_error_def unavailable_error_def network_error_def)

section \<open>The fallback policy\<close>

text \<open>
  C1. Take a POST request with a body that the limiter admits and for which a key is
  resolved, handled by the serverless rewrite handler or by the Express rewrite route. Let
  \<open>p\<close> be the outcome of the call to the pro model and \<open>s\<close> what the flash model would answer
  after it. Then the flash model is called exactly once if \<open>p\<close> is a failure that
  \<open>isQuotaError\<close> accepts, and not at all otherwise. When it is called, its outcome is the
  response: status 200 with its text, or its own error. A failure of the pro model that is
  not a quota error is the response as it is, and a success of the pro model is answered
  with its text. An error is answered with its own status, or 500 when it has none or it is
  0, and with its own message, or \<open>Internal Server Error\<close> when it has none or it is empty.
\<close>

theorem fallback_only_on_quota:
  assumes "(rateLimiterMiddleware (rewrite_ip req) now rl = (True, rl')
              \<and> out = rewrite_handler env gc req now rl u)
         \<or> (rateLimiterMiddleware (express_ip req) now rl = (True, rl')
              \<and> out = startServer env gc (ApiRewrite, Parsed req) now rl u)"
    and "req_method req = ''POST''"
    and "req_body req = Object b"
    and "js_or (body_apiKey b) env = Some k" and "k \<noteq> []"
    and "gc (pro_call k (body_text b)) u = (p, u1)"
    and "gc (flash_call k (body_text b)) u1 = (s, u2)"
  shows "length (filter (\<lambda>c. call_model c = ''gemini-3-flash-preview'') (calls out)) =
           (if \<exists>e. p = Inl e \<and> isQuotaError e then 1 else 0)
       \<and> calls out =
           (if \<exists>e. p = Inl e \<and> isQuotaError e
            then [pro_call k (body_text b), flash_call k (body_text b)]
            else [pro_call k (body_text b)])
       \<and> (\<forall>e r. p = Inl e \<and> isQuotaError e \<and> s = Inr r \<longrightarrow>
            response out =
              Sent \<lparr>res_status = 200,
                    res_json = (case result_text r of None \<Rightarrow> [] | Some t \<Rightarrow> [(''text'', t)])\<rparr>
          \<and> upstream out = u2)
       \<and> (\<forall>e e2. p = Inl e \<and> isQuotaError e \<and> s = Inl e2 \<longrightarrow>
            response out =
              Sent \<lparr>res_status = (case err_status e2 of
                                   None \<Rightarrow> 500 | Some st \<Rightarrow> if st = 0 then 500 else st),
                    res_json = [(''error'', case err_message e2 of
                                   None \<Rightarrow> ''Internal Server Error''
                                 | Some m \<Rightarrow> if m = [] then ''Internal Server Error'' else m)]\<rparr>
          \<and> upstream out = u2)
       \<and> (\<forall>e. p = Inl e \<and> \<not> isQuotaError e \<longrightarrow>
            response out =
              Sent \<lparr>res_status = (case err_status e of
                                   None \<Rightarrow> 500 | Some st \<Rightarrow> if st = 0 then 500 else st),
                    res_json = [(''error'', case err_message e of
                                   None \<Rightarrow> ''Internal Server Error''
                                 | Some m \<Rightarrow> if m = [] then ''Internal Server Error'' else m)]\<rparr>
          \<and> upstream out = u1)
       \<and> (\<forall>r. p = Inr r \<longrightarrow>
            response out =
              Sent \<lparr>res_status = 200,
                    res_json = (case result_text r of None \<Rightarrow> [] | Some t \<Rightarrow> [(''text'', t)])\<rparr>
          \<and> upstream out = u1)"
proof -
  have out: "out = (case rewrite_try env gc req u of
                  (res, cs, u') \<Rightarrow>
                    \<lparr>response = Sent res, calls = cs, limiter = rl', upstream = u'\<rparr>)"
    using assms(1,2) by (rule rewrite_post_outcome)
  show ?thesis
    unfolding out rewrite_try_cases [OF assms(3-7)] server_error_explicit text_payload
    by (cases p; cases s) (simp_all add: pro_call_def flash_call_def)
qed

theorem fallback_only_on_quota_witness:
  "calls (rewrite_handler None scripted sample_post 0 Map.empty
            [Inl quota_error, Inl unavailable_error]) =
     [pro_call ''user-key'' (Some ''The weather is nice today.''),
      flash_call ''user-key'' (Some ''The weather is nice today.'')]
   \<and> response (rewrite_handler None scripted sample_post 0 Map.empty
                 [Inl quota_error, Inl unavailable_error]) =
       Sent \<lparr>res_status = 503, res_json = [(''error'', ''The model is overloaded.'')]\<rparr>
   \<and> calls (startServer None scripted (ApiRewrite, Parsed sample_post) 0 Map.empty
               [Inl network_error]) =
       [pro_call ''user-key'' (Some ''The weather is nice today.'')]
   \<and> response (startServer None scripted (ApiRewrite, Parsed sample_post) 0 Map.empty
                  [Inl network_error]) =
       Sent \<lparr>res_status = 500, res_json = [(''error'', ''fetch failed'')]\<rparr>"
proof -
  let ?key = "''user-key''" and ?body = "Some ''The weather is nice today.''"
  let ?b = "\<lparr>body_text = ?body, body_apiKey = Some ?key\<rparr>"
  let ?out1 = "rewrite_handler None scripted sample_post 0 Map.empty
                 [Inl quota_error, Inl unavailable_error]"
  let ?out2 = "startServer None scripted (ApiRewrite, Parsed sample_post) 0 Map.empty
                 [Inl network_error]"
  have adm1: "(rateLimiterMiddleware (rewrite_ip sample_post) 0 Map.empty =
                 (True, [''203.0.113.7'' \<mapsto> \<lparr>count = 1, lastReset = 0\<rparr>])
               \<and> ?out1 = rewrite_handler None scripted sample_post 0 Map.empty
                     [Inl quota_error, Inl unavailable_error])
            \<or> (rateLimiterMiddleware (express_ip sample_post) 0 Map.empty =
                 (True, [''203.0.113.7'' \<mapsto> \<lparr>count = 1, lastReset = 0\<rparr>])
               \<and> ?out1 = startServer None scripted (ApiRewrite, Parsed sample_post) 0 Map.empty
                     [Inl quota_error, Inl unavailable_error])"
    by (simp add: sample_post_admitted_rewrite)
  have adm2: "(rateLimiterMiddleware (rewrite_ip sample_post) 0 Map.empty =
                 (True, [''203.0.113.7'' \<mapsto> \<lparr>count = 1, lastReset = 0\<rparr>])
               \<and> ?out2 = rewrite_handler None scripted sample_post 0 Map.empty
                     [Inl network_error])
            \<or> (rateLimiterMiddleware (express_ip sample_post) 0 Map.empty =
                 (True, [''203.0.113.7'' \<mapsto> \<lparr>count = 1, lastReset = 0\<rparr>])
               \<and> ?out2 = startServer None scripted (ApiRewrite, Parsed sample_post) 0 Map.empty
                     [Inl network_error])"
    by (simp add: sample_post_admitted_express)
  have key: "js_or (body_apiKey ?b) None = Some ?key" "?key \<noteq> []"
    by (simp_all add: js_or_def truthy_def)
  have p1: "scripted (pro_call ?key (body_text ?b))
              [Inl quota_error, Inl unavailable_error] =
              (Inl quota_error, [Inl unavailable_error])"
    and s1: "scripted (flash_call ?key (body_text ?b)) [Inl unavailable_error] =
               (Inl unavailable_error, [])"
    and p2: "scripted (pro_call ?key (body_text ?b)) [Inl network_error] =
               (Inl network_error, [])"
    and s2: "scripted (flash_call ?key (body_text ?b)) [] = (Inl network_error, [])"
    by simp_all
  from fallback_only_on_quota
    [OF adm1 sample_post_fields(1) sample_post_fields(2) key p1 s1] sample_errors
  have first: "calls ?out1 = [pro_call ?key ?body, flash_call ?key ?body]
             \<and> response ?out1 =
                 Sent \<lparr>res_status = 503, res_json = [(''error'', ''The model is overloaded.'')]\<rparr>"
    by (simp add: unavailable_error_def)
  from fallback_only_on_quota
    [OF adm2 sample_post_fields(1) sample_post_fields(2) key p2 s2] sample_errors
  have second: "calls ?out2 = [pro_call ?key ?body]
              \<and> response ?out2 =
                  Sent \<lparr>res_status = 500, res_json = [(''error'', ''fetch failed'')]\<rparr>"
    by (simp add: network_error_def)
  from first second show ?thesis by simp
qed

section \<open>Classifying a failure of the pro model\<close>

lemma rewrite_handler_called:
  assumes "pro_call k t \<in> set (calls (rewrite_handler env gc req now rl u))"
  obtains rl' b where "rateLimiterMiddleware (rewrite_ip req) now rl = (True, rl')"
    and "req_method req = ''POST''" and "req_body req = Object b"
    and "js_or (body_apiKey b) env = Some k" and "k \<noteq> []" and "body_text b = t"
proof -
  obtain a rl' where lim: "rateLimiterMiddleware (rewrite_ip req) now rl = (a, rl')"
    by (cases "rateLimiterMiddleware (rewrite_ip req) now rl")
  have a: "a"
    using assms lim by (cases a) (simp_all add: rewrite_handler_def)
  have post: "req_method req = ''POST''"
    using assms lim a by (auto simp: rewrite_handler_def rewrite_admitted_def split: if_splits)
  have mem: "pro_call k t \<in> set (fst (snd (rewrite_try env gc req u)))"
    using assms lim a post
    by (simp add: rewrite_handler_def rewrite_admitted_def split: prod.splits)
  have "req_body req \<noteq> Undefined" "req_body req \<noteq> Null"
    using mem by (auto simp: rewrite_try_no_body)
  then obtain b where b: "req_body req = Object b"
    by (cases "req_body req") auto
  have "truthy (js_or (body_apiKey b) env)"
  proof (rule ccontr)
    assume "\<not> truthy (js_or (body_apiKey b) env)"
    then have "rewrite_try env gc req u = (key_missing, [], u)"
      using b by (rule rewrite_try_no_key [rotated])
    then show False
      using mem by simp
  qed
  then obtain k' where k': "js_or (body_apiKey b) env = Some k'" "k' \<noteq> []"
    by (auto simp: truthy_def split: option.splits)
  obtain p u1 where p: "gc (pro_call k' (body_text b)) u = (p, u1)"
    by (cases "gc (pro_call k' (body_text b)) u")
  obtain s u2 where s: "gc (flash_call k' (body_text b)) u1 = (s, u2)"
    by (cases "gc (flash_call k' (body_text b)) u1")
  have "pro_call k t = pro_call k' (body_text b)"
    using mem unfolding rewrite_try_cases [OF b k' p s]
    by (cases p) (auto simp: pro_call_def flash_call_def split: if_splits)
  then have "k = k'" "body_text b = t"
    by (simp_all add: pro_call_def)
  with lim a post b k' show ?thesis
    by (intro that [of rl' b]) simp_all
qed

text \<open>
  C2. \<open>isQuotaError\<close> accepts an error exactly when its status is 429, or its message
  contains \<open>429\<close> or \<open>RESOURCE_EXHAUSTED\<close>, or its nested error has code 429 or status
  \<open>RESOURCE_EXHAUSTED\<close>, or the serialized error contains \<open>RESOURCE_EXHAUSTED\<close>. The status
  is looked at first: an error with status 429 is accepted whatever its message \<open>m\<close> is, and
  the rewrite handler then calls the flash model after the pro model. That holds for the
  request whose body \<open>b\<close> the handler has read, and for every request whatever: whenever the
  handler has called the pro model and the call failed with status 429, the flash call
  follows.
\<close>

theorem quota_classification:
  "(isQuotaError e \<longleftrightarrow>
      err_status e = Some 429
    \<or> (\<exists>m pre post. err_message e = Some m
          \<and> (m = pre @ ''429'' @ post \<or> m = pre @ ''RESOURCE_EXHAUSTED'' @ post))
    \<or> (\<exists>n. err_error e = Some n
          \<and> (nested_code n = Some 429 \<or> nested_status n = Some ''RESOURCE_EXHAUSTED''))
    \<or> (\<exists>pre post. err_json e = pre @ ''RESOURCE_EXHAUSTED'' @ post))
   \<and> (err_status e = Some 429 \<longrightarrow> isQuotaError (e\<lparr>err_message := m\<rparr>))
   \<and> (rateLimiterMiddleware (rewrite_ip req) now rl = (True, rl') \<longrightarrow>
        req_method req = ''POST'' \<longrightarrow> req_body req = Object b \<longrightarrow>
        js_or (body_apiKey b) env = Some k \<longrightarrow> k \<noteq> [] \<longrightarrow>
        gc (pro_call k (body_text b)) u = (Inl (e\<lparr>err_message := m\<rparr>), v) \<longrightarrow>
        err_status e = Some 429 \<longrightarrow>
        calls (rewrite_handler env gc req now rl u) =
          [pro_call k (body_text b), flash_call k (body_text b)])
   \<and> (pro_call k t \<in> set (calls (rewrite_handler env gc req now rl u)) \<longrightarrow>
        gc (pro_call k t) u = (Inl (e\<lparr>err_message := m\<rparr>), v) \<longrightarrow>
        err_status e = Some 429 \<longrightarrow>
        calls (rewrite_handler env gc req now rl u) = [pro_call k t, flash_call k t])"
proof (intro conjI impI)
  show "isQuotaError e \<longleftrightarrow>
      err_status e = Some 429
    \<or> (\<exists>m pre post. err_message e = Some m
          \<and> (m = pre @ ''429'' @ post \<or> m = pre @ ''RESOURCE_EXHAUSTED'' @ post))
    \<or> (\<exists>n. err_error e = Some n
          \<and> (nested_code n = Some 429 \<or> nested_status n = Some ''RESOURCE_EXHAUSTED''))
    \<or> (\<exists>pre post. err_json e = pre @ ''RESOURCE_EXHAUSTED'' @ post)"
    unfolding isQuotaError_def str_includes_iff
    by (cases "err_message e"; cases "err_error e") auto
next
  assume "err_status e = Some 429"
  then show "isQuotaError (e\<lparr>err_message := m\<rparr>)"
    by (simp add: isQuotaError_def)
next
  assume adm: "rateLimiterMiddleware (rewrite_ip req) now rl = (True, rl')"
    and post: "req_method req = ''POST''"
    and body: "req_body req = Object b"
    and key: "js_or (body_apiKey b) env = Some k" "k \<noteq> []"
    and p: "gc (pro_call k (body_text b)) u = (Inl (e\<lparr>err_message := m\<rparr>), v)"
    and st: "err_status e = Some 429"
  obtain s u2 where s: "gc (flash_call k (body_text b)) v = (s, u2)"
    by (cases "gc (flash_call k (body_text b)) v")
  have q: "isQuotaError (e\<lparr>err_message := m\<rparr>)"
    using st by (simp add: isQuotaError_def)
  show "calls (rewrite_handler env gc req now rl u) =
          [pro_call k (body_text b), flash_call k (body_text b)]"
    using q
    by (simp add: rewrite_handler_admitted [OF adm] rewrite_admitted_def post
          rewrite_try_cases [OF body key p s] split: sum.splits)
next
  assume called: "pro_call k t \<in> set (calls (rewrite_handler env gc req now rl u))"
    and p: "gc (pro_call k t) u = (Inl (e\<lparr>err_message := m\<rparr>), v)"
    and st: "err_status e = Some 429"
  from called obtain x b' where adm: "rateLimiterMiddleware (rewrite_ip req) now rl = (True, x)"
    and post: "req_method req = ''POST''" and body: "req_body req = Object b'"
    and key: "js_or (body_apiKey b') env = Some k" "k \<noteq> []" and t: "body_text b' = t"
    by (rule rewrite_handler_called)
  have p': "gc (pro_call k (body_text b')) u = (Inl (e\<lparr>err_message := m\<rparr>), v)"
    using p t by simp
  obtain s u2 where s: "gc (flash_call k (body_text b')) v = (s, u2)"
    by (cases "gc (flash_call k (body_text b')) v")
  have q: "isQuotaError (e\<lparr>err_message := m\<rparr>)"
    using st by (simp add: isQuotaError_def)
  show "calls (rewrite_handler env gc req now rl u) = [pro_call k t, flash_call k t]"
    using q t
    by (simp add: rewrite_handler_admitted [OF adm] rewrite_admitted_def post
          rewrite_try_cases [OF body key p' s] split: sum.splits)
qed

theorem quota_classification_witness:
  "isQuotaError quota_error
   \<and> isQuotaError (quota_error\<lparr>err_message := Some ''socket hang up''\<rparr>)
   \<and> calls (rewrite_handler None scripted sample_post 0 Map.empty
              [Inl (quota_error\<lparr>err_message := Some ''socket hang up''\<rparr>),
               Inr \<lparr>result_text = Some ''Fallback text''\<rparr>]) =
       [pro_call ''user-key'' (Some ''The weather is nice today.''),
        flash_call ''user-key'' (Some ''The weather is nice today.'')]"
proof -
  let ?b = "\<lparr>body_text = Some ''The weather is nice today.'', body_apiKey = Some ''user-key''\<rparr>"
  have st: "err_status quota_error = Some 429"
    by (simp add: quota_error_def)
  have key: "js_or (body_apiKey ?b) None = Some ''user-key''" "''user-key'' \<noteq> []"
    by (simp_all add: js_or_def truthy_def)
  have p: "scripted (pro_call ''user-key'' (body_text ?b))
             [Inl (quota_error\<lparr>err_message := Some ''socket hang up''\<rparr>),
              Inr \<lparr>result_text = Some ''Fallback text''\<rparr>] =
           (Inl (quota_error\<lparr>err_message := Some ''socket hang up''\<rparr>),
            [Inr \<lparr>result_text = Some ''Fallback text''\<rparr>])"
    by simp
  note inst = quota_classification
    [where e = quota_error and m = "Some ''socket hang up''" and req = sample_post
       and now = 0 and rl = Map.empty and env = None and gc = scripted and k = "''user-key''"
       and b = ?b and t = "Some ''The weather is nice today.''"
       and u = "[Inl (quota_error\<lparr>err_message := Some ''socket hang up''\<rparr>),
                 Inr \<lparr>result_text = Some ''Fallback text''\<rparr>]"
       and v = "[Inr \<lparr>result_text = Some ''Fallback text''\<rparr>]"
       and rl' = "[''203.0.113.7'' \<mapsto> \<lparr>count = 1, lastReset = 0\<rparr>]"]
  have a: "isQuotaError quota_error"
    using inst st by blast
  have b: "isQuotaError (quota_error\<lparr>err_message := Some ''socket hang up''\<rparr>)"
    using inst st by blast
  have c: "calls (rewrite_handler None scripted sample_post 0 Map.empty
              [Inl (quota_error\<lparr>err_message := Some ''socket hang up''\<rparr>),
               Inr \<lparr>result_text = Some ''Fallback text''\<rparr>]) =
       [pro_call ''user-key'' (body_text ?b), flash_call ''user-key'' (body_text ?b)]"
    using inst [THEN conjunct2, THEN conjunct2, THEN conjunct1, THEN mp,
        OF sample_post_admitted_rewrite, THEN mp, OF sample_post_fields(1), THEN mp,
        OF sample_post_fields(2), THEN mp, OF key(1), THEN mp, OF key(2), THEN mp, OF p,
        THEN mp, OF st] .
  have called: "pro_call ''user-key'' (Some ''The weather is nice today.'')
      \<in> set (calls (rewrite_handler None scripted sample_post 0 Map.empty
              [Inl (quota_error\<lparr>err_message := Some ''socket hang up''\<rparr>),
               Inr \<lparr>result_text = Some ''Fallback text''\<rparr>]))"
    by (simp add: rewrite_handler_admitted [OF sample_post_admitted_rewrite]
          rewrite_admitted_def rewrite_try_def sample_post_fields js_or_def truthy_def Let_def
          isQuotaError_def quota_error_def)
  have p': "scripted (pro_call ''user-key'' (Some ''The weather is nice today.''))
             [Inl (quota_error\<lparr>err_message := Some ''socket hang up''\<rparr>),
              Inr \<lparr>result_text = Some ''Fallback text''\<rparr>] =
           (Inl (quota_error\<lparr>err_message := Some ''socket hang up''\<rparr>),
            [Inr \<lparr>result_text = Some ''Fallback text''\<rparr>])"
    by simp
  have d: "calls (rewrite_handler None scripted sample_post 0 Map.empty
              [Inl (quota_error\<lparr>err_message := Some ''socket hang up''\<rparr>),
               Inr \<lparr>result_text = Some ''Fallback text''\<rparr>]) =
       [pro_call ''user-key'' (Some ''The weather is nice today.''),
        flash_call ''user-key'' (Some ''The weather is nice today.'')]"
    using inst [THEN conjunct2, THEN conjunct2, THEN conjunct2, THEN mp, OF called, THEN mp,
        OF p', THEN mp, OF st] .
  from a b c d show ?thesis
    by simp
qed

section \<open>Facts about the limiter\<close>

lemma limiter_other:
  "ip \<noteq> StringKey c \<Longrightarrow> snd (rateLimiterMiddleware ip now rl) c = rl c"
  by (cases ip)
     (auto simp: rateLimiterMiddleware_def Let_def rateLimit_get_def rateLimit_set_def)

lemma limiter_in_window:
  assumes "rl c = Some \<lparr>count = k, lastReset = t0\<rparr>" and "now - t0 \<le> WINDOW_MS"
  shows "rateLimiterMiddleware (StringKey c) now rl =
           (if k < MAX_REQUESTS then (True, rl(c \<mapsto> \<lparr>count = Suc k, lastReset = t0\<rparr>))
            else (False, rl))"
  using assms
  by (simp add: rateLimiterMiddleware_def Let_def rateLimit_get_def rateLimit_set_def)

lemma limiter_fresh:
  assumes "rl c = None \<or> (\<exists>r. rl c = Some r \<and> now - lastReset r > WINDOW_MS)"
  shows "rateLimiterMiddleware (StringKey c) now rl =
           (True, rl(c \<mapsto> \<lparr>count = 1, lastReset = now\<rparr>))"
  using assms
  by (auto simp: rateLimiterMiddleware_def Let_def rateLimit_get_def rateLimit_set_def
        MAX_REQUESTS_def)

lemma limiter_rejected:
  "rateLimiterMiddleware ip now rl = (False, rl') \<Longrightarrow> rl' = rl"
  by (auto simp: rateLimiterMiddleware_def Let_def split: if_splits)

lemma limiter_rewrite_admitted [simp]:
  "limiter (rewrite_admitted env gc req rl u) = rl"
  by (simp add: rewrite_admitted_def split: prod.splits)

lemma limiter_express_routes [simp]:
  "limiter (express_routes env gc route req rl u) = rl"
  by (simp add: express_routes_def split: prod.splits)

lemma limiter_rewrite_handler:
  "limiter (rewrite_handler env gc req now rl u) =
     snd (rateLimiterMiddleware (rewrite_ip req) now rl)"
  by (cases "rateLimiterMiddleware (rewrite_ip req) now rl")
     (auto simp: rewrite_handler_def split: bool.splits dest: limiter_rejected)

lemma limiter_express_app:
  "limiter (express_app env gc (route, req) now rl u) =
     (if route = NotApi then rl else snd (rateLimiterMiddleware (express_ip req) now rl))"
  by (cases "rateLimiterMiddleware (express_ip req) now rl")
     (auto simp: express_app_def express_server_def split: bool.splits dest: limiter_rejected)

lemma serve_window:
  assumes lim: "\<And>r now rl u. limiter (h r now rl u) =
                  (case key r of None \<Rightarrow> rl | Some ip \<Rightarrow> snd (rateLimiterMiddleware ip now rl))"
  shows "rl c = Some \<lparr>count = k, lastReset = t0\<rparr> \<Longrightarrow> k \<le> MAX_REQUESTS \<Longrightarrow>
         (\<forall>(r, t) \<in> set rs. key r = Some (StringKey c) \<longrightarrow> t - t0 \<le> WINDOW_MS) \<Longrightarrow>
         fst (serve h rs rl u) c =
           Some \<lparr>count = min MAX_REQUESTS
                            (k + length (filter (\<lambda>(r, t). key r = Some (StringKey c)) rs)),
                 lastReset = t0\<rparr>"
proof (induction rs arbitrary: rl u k)
  case Nil
  then show ?case by simp
next
  case (Cons a rs)
  obtain r t where a: "a = (r, t)" by (cases a)
  let ?rl = "limiter (h r t rl u)"
  show ?case
  proof (cases "key r = Some (StringKey c)")
    case True
    then have t: "t - t0 \<le> WINDOW_MS"
      using Cons.prems(3) a by simp
    have step: "?rl = (if k < MAX_REQUESTS then rl(c \<mapsto> \<lparr>count = Suc k, lastReset = t0\<rparr>)
                       else rl)"
      by (simp add: lim True limiter_in_window [where rl = rl and c = c, OF Cons.prems(1) t])
    show ?thesis
    proof (cases "k < MAX_REQUESTS")
      case less: True
      have "fst (serve h rs ?rl (upstream (h r t rl u))) c =
              Some \<lparr>count = min MAX_REQUESTS
                        (Suc k + length (filter (\<lambda>(r, t). key r = Some (StringKey c)) rs)),
                    lastReset = t0\<rparr>"
        using less Cons.prems(3) by (intro Cons.IH) (simp_all add: step)
      then show ?thesis
        using True by (simp add: a Let_def)
    next
      case False
      then have k: "k = MAX_REQUESTS"
        using Cons.prems(2) by simp
      have "fst (serve h rs ?rl (upstream (h r t rl u))) c =
              Some \<lparr>count = min MAX_REQUESTS
                        (k + length (filter (\<lambda>(r, t). key r = Some (StringKey c)) rs)),
                    lastReset = t0\<rparr>"
        using False Cons.prems by (intro Cons.IH) (simp_all add: step)
      then show ?thesis
        using True k by (simp add: a Let_def)
    qed
  next
    case False
    have same: "?rl c = rl c"
      using False by (cases "key r") (simp_all add: lim limiter_other)
    have "fst (serve h rs ?rl (upstream (h r t rl u))) c =
            Some \<lparr>count = min MAX_REQUESTS
                      (k + length (filter (\<lambda>(r, t). key r = Some (StringKey c)) rs)),
                  lastReset = t0\<rparr>"
      using Cons.prems by (intro Cons.IH) (simp_all add: same)
    then show ?thesis
      using False by (simp add: a Let_def)
  qed
qed

lemma rewrite_serve_opened:
  assumes "rl c = None \<or> (\<exists>r. rl c = Some r \<and> t0 - lastReset r > WINDOW_MS)"
    and "rewrite_from c (req0, t0)"
    and "\<forall>(r, t) \<in> set rs. rewrite_from c (r, t) \<longrightarrow> t - t0 \<le> WINDOW_MS"
  shows "fst (serve (rewrite_handler env gc) ((req0, t0) # rs) rl u) c =
           Some \<lparr>count = min MAX_REQUESTS (Suc (length (filter (rewrite_from c) rs))),
                 lastReset = t0\<rparr>"
proof -
  let ?out = "rewrite_handler env gc req0 t0 rl u"
  have first: "limiter ?out c = Some \<lparr>count = 1, lastReset = t0\<rparr>"
    using assms(2) by (simp add: limiter_rewrite_handler rewrite_from_def limiter_fresh [where rl = rl and c = c, OF assms(1)])
  have "fst (serve (rewrite_handler env gc) rs (limiter ?out) (upstream ?out)) c =
          Some \<lparr>count = min MAX_REQUESTS
                    (1 + length (filter (\<lambda>(r, t). Some (rewrite_ip r) = Some (StringKey c)) rs)),
                lastReset = t0\<rparr>"
    using first assms(3)
    by (intro serve_window [where key = "\<lambda>r. Some (rewrite_ip r)"])
       (auto simp: limiter_rewrite_handler MAX_REQUESTS_def rewrite_from_def)
  then show ?thesis
    by (simp add: Let_def rewrite_from_def)
qed

lemma express_serve_opened:
  assumes "rl c = None \<or> (\<exists>r. rl c = Some r \<and> t0 - lastReset r > WINDOW_MS)"
    and "express_from c (ereq0, t0)"
    and "\<forall>(r, t) \<in> set rs. express_from c (r, t) \<longrightarrow> t - t0 \<le> WINDOW_MS"
  shows "fst (serve (express_app env gc) ((ereq0, t0) # rs) rl u) c =
           Some \<lparr>count = min MAX_REQUESTS (Suc (length (filter (express_from c) rs))),
                 lastReset = t0\<rparr>"
proof -
  obtain route0 req0 where e: "ereq0 = (route0, req0)" by (cases ereq0)
  let ?key = "\<lambda>(route, req). if route = NotApi then None else Some (express_ip req)"
  let ?out = "express_app env gc ereq0 t0 rl u"
  have pred: "(\<lambda>(r, t). ?key r = Some (StringKey c)) = express_from c"
    by (auto simp: express_from_def fun_eq_iff)
  have first: "limiter ?out c = Some \<lparr>count = 1, lastReset = t0\<rparr>"
    using assms(2)
    by (simp add: e limiter_express_app express_from_def limiter_fresh [where rl = rl and c = c, OF assms(1)])
  have "fst (serve (express_app env gc) rs (limiter ?out) (upstream ?out)) c =
          Some \<lparr>count = min MAX_REQUESTS
                    (1 + length (filter (\<lambda>(r, t). ?key r = Some (StringKey c)) rs)),
                lastReset = t0\<rparr>"
    using first assms(3)
    by (intro serve_window [where key = ?key])
       (auto simp: limiter_express_app MAX_REQUESTS_def express_from_def split: if_splits)
  then show ?thesis
    by (simp add: Let_def pred)
qed

lemma rewrite_in_window:
  assumes "rl c = Some \<lparr>count = k, lastReset = t0\<rparr>" and "rewrite_ip req = StringKey c"
    and "now - t0 \<le> WINDOW_MS"
  shows "rewrite_handler env gc req now rl u =
           (if k < MAX_REQUESTS
            then rewrite_admitted env gc req (rl(c \<mapsto> \<lparr>count = Suc k, lastReset = t0\<rparr>)) u
            else \<lparr>response = Sent too_many_requests, calls = [], limiter = rl, upstream = u\<rparr>)"
  by (simp add: rewrite_handler_def assms(2) limiter_in_window [where rl = rl and c = c, OF assms(1,3)])

lemma express_in_window:
  assumes "rl c = Some \<lparr>count = k, lastReset = t0\<rparr>" and "express_ip req = StringKey c"
    and "route \<noteq> NotApi" and "now - t0 \<le> WINDOW_MS"
  shows "express_server env gc route req now rl u =
           (if k < MAX_REQUESTS
            then express_routes env gc route req
                   (rl(c \<mapsto> \<lparr>count = Suc k, lastReset = t0\<rparr>)) u
            else \<lparr>response = Sent too_many_requests, calls = [], limiter = rl, upstream = u\<rparr>)"
  by (simp add: express_server_def assms(2,3) limiter_in_window [where rl = rl and c = c, OF assms(1,4)])

lemma limiter_verify_handler [simp]:
  "limiter (verify_handler gc req rl u) = rl"
  by (simp add: verify_handler_def split: prod.splits)

lemma limiter_verify_handler_limited:
  "limiter (verify_handler_limited gc req now rl u) =
     snd (rateLimiterMiddleware (verify_ip req) now rl)"
  by (cases "rateLimiterMiddleware (verify_ip req) now rl")
     (auto simp: verify_handler_limited_def split: bool.splits dest: limiter_rejected)

lemma limiter_startServer:
  "limiter (startServer env gc (route, inc) now rl u) =
     (case inc of
        Unparsable st \<Rightarrow> rl
      | Parsed req \<Rightarrow>
          if route = NotApi then rl else snd (rateLimiterMiddleware (express_ip req) now rl))"
  using limiter_express_app [of env gc route _ now rl u]
  by (cases inc) (simp_all add: express_app_def)

lemma verify_serve_opened:
  assumes "rl c = None \<or> (\<exists>r. rl c = Some r \<and> t0 - lastReset r > WINDOW_MS)"
    and "verify_from c (req0, t0)"
    and "\<forall>(r, t) \<in> set rs. verify_from c (r, t) \<longrightarrow> t - t0 \<le> WINDOW_MS"
  shows "fst (serve (verify_handler_limited gc) ((req0, t0) # rs) rl u) c =
           Some \<lparr>count = min MAX_REQUESTS (Suc (length (filter (verify_from c) rs))),
                 lastReset = t0\<rparr>"
proof -
  let ?out = "verify_handler_limited gc req0 t0 rl u"
  have first: "limiter ?out c = Some \<lparr>count = 1, lastReset = t0\<rparr>"
    using assms(2)
    by (simp add: limiter_verify_handler_limited verify_from_def
          limiter_fresh [where rl = rl and c = c, OF assms(1)])
  have "fst (serve (verify_handler_limited gc) rs (limiter ?out) (upstream ?out)) c =
          Some \<lparr>count = min MAX_REQUESTS
                    (1 + length (filter (\<lambda>(r, t). Some (verify_ip r) = Some (StringKey c)) rs)),
                lastReset = t0\<rparr>"
    using first assms(3)
    by (intro serve_window [where key = "\<lambda>r. Some (verify_ip r)"])
       (auto simp: limiter_verify_handler_limited MAX_REQUESTS_def verify_from_def)
  then show ?thesis
    by (simp add: Let_def verify_from_def)
qed

lemma startServer_serve_opened:
  assumes "rl c = None \<or> (\<exists>r. rl c = Some r \<and> t0 - lastReset r > WINDOW_MS)"
    and "startServer_from c (ereq0, t0)"
    and "\<forall>(r, t) \<in> set rs. startServer_from c (r, t) \<longrightarrow> t - t0 \<le> WINDOW_MS"
  shows "fst (serve (startServer env gc) ((ereq0, t0) # rs) rl u) c =
           Some \<lparr>count = min MAX_REQUESTS (Suc (length (filter (startServer_from c) rs))),
                 lastReset = t0\<rparr>"
proof -
  obtain route0 inc0 where e: "ereq0 = (route0, inc0)" by (cases ereq0)
  let ?key = "\<lambda>(route, inc). case inc of
                 Unparsable st \<Rightarrow> None
               | Parsed req \<Rightarrow> if route = NotApi then None else Some (express_ip req)"
  let ?out = "startServer env gc ereq0 t0 rl u"
  have pred: "(\<lambda>(r, t). ?key r = Some (StringKey c)) = startServer_from c"
    by (auto simp: startServer_from_def fun_eq_iff split: incoming.splits)
  have lim: "limiter (startServer env gc r now rl u) =
               (case ?key r of None \<Rightarrow> rl | Some ip \<Rightarrow> snd (rateLimiterMiddleware ip now rl))"
    for r now rl u
    by (cases r) (simp add: limiter_startServer split: incoming.splits)
  have first: "limiter ?out c = Some \<lparr>count = 1, lastReset = t0\<rparr>"
    using assms(2)
    by (auto simp: e limiter_startServer startServer_from_def
          limiter_fresh [where rl = rl and c = c, OF assms(1)] split: incoming.splits)
  have "fst (serve (startServer env gc) rs (limiter ?out) (upstream ?out)) c =
          Some \<lparr>count = min MAX_REQUESTS
                    (1 + length (filter (\<lambda>(r, t). ?key r = Some (StringKey c)) rs)),
                lastReset = t0\<rparr>"
  proof (rule serve_window [where key = ?key])
    show "limiter (startServer env gc r now rl u) =
            (case ?key r of None \<Rightarrow> rl | Some ip \<Rightarrow> snd (rateLimiterMiddleware ip now rl))"
      for r now rl u
      by (rule lim)
    show "limiter ?out c = Some \<lparr>count = 1, lastReset = t0\<rparr>"
      by (rule first)
    show "1 \<le> MAX_REQUESTS"
      by (simp add: MAX_REQUESTS_def)
    show "\<forall>(r, t) \<in> set rs. ?key r = Some (StringKey c) \<longrightarrow> t - t0 \<le> WINDOW_MS"
      using assms(3) unfolding pred [symmetric] by auto
  qed
  then show ?thesis
    by (simp add: Let_def pred)
qed

lemma verify_in_window:
  assumes "rl c = Some \<lparr>count = k, lastReset = t0\<rparr>" and "verify_ip req = StringKey c"
    and "now - t0 \<le> WINDOW_MS"
  shows "verify_handler_limited gc req now rl u =
           (if k < MAX_REQUESTS
            then verify_handler gc req (rl(c \<mapsto> \<lparr>count = Suc k, lastReset = t0\<rparr>)) u
            else \<lparr>response = Sent too_many_requests, calls = [], limiter = rl, upstream = u\<rparr>)"
  by (simp add: verify_handler_limited_def assms(2)
        limiter_in_window [where rl = rl and c = c, OF assms(1,3)])

lemma serverless_verify_only:
  "\<forall>x \<in> set rs. fst x = Verify \<Longrightarrow> fst (serverless_serve env gc rs rm vm u) = rm"
  by (induction rs arbitrary: vm u) (auto simp: Let_def)

lemma serverless_rewrite_only:
  "\<forall>x \<in> set rs. fst x = Rewrite \<Longrightarrow> fst (snd (serverless_serve env gc rs rm vm u)) = vm"
  by (induction rs arbitrary: rm u) (auto simp: Let_def)

lemma serverless_rewrite_run:
  "\<forall>x \<in> set rs. fst x = Rewrite \<Longrightarrow>
   fst (serverless_serve env gc rs rm vm u) =
     fst (serve (rewrite_handler env gc) (map snd rs) rm u)"
  by (induction rs arbitrary: rm u) (auto simp: Let_def)

section \<open>Twenty requests per window\<close>

text \<open>
  C3, as the claim states it, fails: the limit is not one budget for a client whatever the
  operation. In the serverless deployment the rewrite module and the verify module count in
  separate maps: after 20 rewrite requests of a client in one window its 21st request, a
  verify request, is admitted and answered 200, while a rewrite request at that moment is
  answered 429. The serverless verify handler without a limiter answers the 21st verify
  request of a client like the first. The Express server answers a request whose body does
  not parse with the error page of the parser, status 400, also when the client has used
  up its window.
\<close>

theorem window_quota_counterexample:
  "response (rewrite_handler None accepting sample_post 1000
      (fst (serverless_serve None accepting (replicate 20 (Rewrite, sample_post, 0))
              Map.empty Map.empty ()))
      (snd (snd (serverless_serve None accepting (replicate 20 (Rewrite, sample_post, 0))
                   Map.empty Map.empty ())))) =
     Sent too_many_requests
   \<and> response (verify_handler_limited accepting sample_post 1000
      (fst (snd (serverless_serve None accepting (replicate 20 (Rewrite, sample_post, 0))
                   Map.empty Map.empty ())))
      (snd (snd (serverless_serve None accepting (replicate 20 (Rewrite, sample_post, 0))
                   Map.empty Map.empty ())))) =
     Sent \<lparr>res_status = 200, res_json = [(''status'', ''valid'')]\<rparr>
   \<and> response (verify_handler accepting sample_post
      (fst (serve (\<lambda>req now. verify_handler accepting req) (replicate 20 (sample_post, 0))
              Map.empty ()))
      (snd (serve (\<lambda>req now. verify_handler accepting req) (replicate 20 (sample_post, 0))
              Map.empty ()))) =
     Sent \<lparr>res_status = 200, res_json = [(''status'', ''valid'')]\<rparr>
   \<and> response (startServer None accepting (ApiVerify, Unparsable 400) 1000
                 [''203.0.113.7'' \<mapsto> \<lparr>count = 20, lastReset = 0\<rparr>] ()) = ErrorPage 400"
proof -
  have a: "response (rewrite_handler None accepting sample_post 1000
      (fst (serverless_serve None accepting (replicate 20 (Rewrite, sample_post, 0))
              Map.empty Map.empty ()))
      (snd (snd (serverless_serve None accepting (replicate 20 (Rewrite, sample_post, 0))
                   Map.empty Map.empty ())))) =
     Sent too_many_requests"
    by code_simp
  have b: "response (verify_handler_limited accepting sample_post 1000
      (fst (snd (serverless_serve None accepting (replicate 20 (Rewrite, sample_post, 0))
                   Map.empty Map.empty ())))
      (snd (snd (serverless_serve None accepting (replicate 20 (Rewrite, sample_post, 0))
                   Map.empty Map.empty ())))) =
     Sent \<lparr>res_status = 200, res_json = [(''status'', ''valid'')]\<rparr>"
    by code_simp
  have c: "response (verify_handler accepting sample_post x y) =
             Sent \<lparr>res_status = 200, res_json = [(''status'', ''valid'')]\<rparr>" for x y
    by (simp add: verify_handler_def verify_try_def sample_post_def accepting_def
          json_object_def)
  show ?thesis
    unfolding a b c by simp
qed

text \<open>
  C3, amended. Every limiter keeps the claim for the requests it counts. A window of the
  client \<open>c\<close> opens with a counted request at \<open>t0\<close> that finds no record of \<open>c\<close>, or one whose
  window has elapsed. Let any requests follow, of which the counted ones of \<open>c\<close> arrive
  within 60,000 ms of \<open>t0\<close>, and let \<open>n\<close> be the number of counted requests of \<open>c\<close> so far in
  the window, the opening one included. The next counted request of \<open>c\<close> within the window
  is then admitted, and counted as number \<open>n + 1\<close>, when \<open>n < 20\<close>; from the 21st on it is
  answered with status 429, no upstream call is made and the map stays as it was. The
  serverless rewrite handler counts the requests it handles, of any method. The serverless
  verify handler with a limiter counts the requests it handles, in a map of its own. The
  Express server counts in one map every request under \<^verbatim>\<open>/api/\<close> that its body parser passes
  on, whatever the route (rewrite, verify or other) and method; a request that the parser
  refuses is answered with the error page and is not counted.
\<close>

theorem window_quota:
  fixes rs vs :: "(request \<times> int) list" and ers :: "((endpoint \<times> incoming) \<times> int) list"
  assumes "rl c = None \<or> (\<exists>r. rl c = Some r \<and> t0 - lastReset r > WINDOW_MS)"
    and "now - t0 \<le> WINDOW_MS"
  shows "(rewrite_from c (req0, t0) \<longrightarrow>
          (\<forall>(r, t) \<in> set rs. rewrite_from c (r, t) \<longrightarrow> t - t0 \<le> WINDOW_MS) \<longrightarrow>
          rewrite_from c (req, now) \<longrightarrow>
          serve (rewrite_handler env gc) ((req0, t0) # rs) rl u = (rl', u') \<longrightarrow>
          n = Suc (length (filter (rewrite_from c) rs)) \<longrightarrow>
          rewrite_handler env gc req now rl' u' =
            (if n < 20
             then rewrite_admitted env gc req
                    (rl'(c \<mapsto> \<lparr>count = Suc n, lastReset = t0\<rparr>)) u'
             else \<lparr>response = Sent too_many_requests, calls = [], limiter = rl',
                    upstream = u'\<rparr>))
       \<and> (verify_from c (req0, t0) \<longrightarrow>
          (\<forall>(r, t) \<in> set vs. verify_from c (r, t) \<longrightarrow> t - t0 \<le> WINDOW_MS) \<longrightarrow>
          verify_from c (req, now) \<longrightarrow>
          serve (verify_handler_limited gc) ((req0, t0) # vs) rl u = (vrl, vu) \<longrightarrow>
          j = Suc (length (filter (verify_from c) vs)) \<longrightarrow>
          verify_handler_limited gc req now vrl vu =
            (if j < 20
             then verify_handler gc req (vrl(c \<mapsto> \<lparr>count = Suc j, lastReset = t0\<rparr>)) vu
             else \<lparr>response = Sent too_many_requests, calls = [], limiter = vrl,
                    upstream = vu\<rparr>))
       \<and> (startServer_from c (ereq0, t0) \<longrightarrow>
          (\<forall>(r, t) \<in> set ers. startServer_from c (r, t) \<longrightarrow> t - t0 \<le> WINDOW_MS) \<longrightarrow>
          startServer_from c ((route, Parsed req), now) \<longrightarrow>
          serve (startServer env gc) ((ereq0, t0) # ers) rl u = (erl, eu) \<longrightarrow>
          m = Suc (length (filter (startServer_from c) ers)) \<longrightarrow>
          startServer env gc (route, Parsed req) now erl eu =
            (if m < 20
             then express_routes env gc route req
                    (erl(c \<mapsto> \<lparr>count = Suc m, lastReset = t0\<rparr>)) eu
             else \<lparr>response = Sent too_many_requests, calls = [], limiter = erl,
                    upstream = eu\<rparr>))
       \<and> startServer env gc (route, Unparsable st) now rl u =
           \<lparr>response = ErrorPage st, calls = [], limiter = rl, upstream = u\<rparr>
       \<and> too_many_requests =
           \<lparr>res_status = 429,
            res_json = [(''error'', ''Too many requests. Please try again later.'')]\<rparr>"
proof (intro conjI impI)
  assume first: "rewrite_from c (req0, t0)"
    and window: "\<forall>(r, t) \<in> set rs. rewrite_from c (r, t) \<longrightarrow> t - t0 \<le> WINDOW_MS"
    and nxt: "rewrite_from c (req, now)"
    and run: "serve (rewrite_handler env gc) ((req0, t0) # rs) rl u = (rl', u')"
    and n: "n = Suc (length (filter (rewrite_from c) rs))"
  have "fst (serve (rewrite_handler env gc) ((req0, t0) # rs) rl u) c =
          Some \<lparr>count = min MAX_REQUESTS n, lastReset = t0\<rparr>"
    unfolding n using assms(1) first window by (rule rewrite_serve_opened)
  then have rec: "rl' c = Some \<lparr>count = min MAX_REQUESTS n, lastReset = t0\<rparr>"
    unfolding run by simp
  have ip: "rewrite_ip req = StringKey c"
    using nxt by (simp add: rewrite_from_def)
  show "rewrite_handler env gc req now rl' u' =
          (if n < 20
           then rewrite_admitted env gc req (rl'(c \<mapsto> \<lparr>count = Suc n, lastReset = t0\<rparr>)) u'
           else \<lparr>response = Sent too_many_requests, calls = [], limiter = rl',
                  upstream = u'\<rparr>)"
    by (simp add: rewrite_in_window [where rl = rl' and c = c, OF rec ip assms(2)]
          MAX_REQUESTS_def min_def)
next
  assume first: "verify_from c (req0, t0)"
    and window: "\<forall>(r, t) \<in> set vs. verify_from c (r, t) \<longrightarrow> t - t0 \<le> WINDOW_MS"
    and nxt: "verify_from c (req, now)"
    and run: "serve (verify_handler_limited gc) ((req0, t0) # vs) rl u = (vrl, vu)"
    and j: "j = Suc (length (filter (verify_from c) vs))"
  have "fst (serve (verify_handler_limited gc) ((req0, t0) # vs) rl u) c =
          Some \<lparr>count = min MAX_REQUESTS j, lastReset = t0\<rparr>"
    unfolding j using assms(1) first window by (rule verify_serve_opened)
  then have rec: "vrl c = Some \<lparr>count = min MAX_REQUESTS j, lastReset = t0\<rparr>"
    unfolding run by simp
  have ip: "verify_ip req = StringKey c"
    using nxt by (simp add: verify_from_def)
  show "verify_handler_limited gc req now vrl vu =
          (if j < 20
           then verify_handler gc req (vrl(c \<mapsto> \<lparr>count = Suc j, lastReset = t0\<rparr>)) vu
           else \<lparr>response = Sent too_many_requests, calls = [], limiter = vrl,
                  upstream = vu\<rparr>)"
    by (simp add: verify_in_window [where rl = vrl and c = c, OF rec ip assms(2)]
          MAX_REQUESTS_def min_def)
next
  assume first: "startServer_from c (ereq0, t0)"
    and window: "\<forall>(r, t) \<in> set ers. startServer_from c (r, t) \<longrightarrow> t - t0 \<le> WINDOW_MS"
    and nxt: "startServer_from c ((route, Parsed req), now)"
    and run: "serve (startServer env gc) ((ereq0, t0) # ers) rl u = (erl, eu)"
    and m: "m = Suc (length (filter (startServer_from c) ers))"
  have "fst (serve (startServer env gc) ((ereq0, t0) # ers) rl u) c =
          Some \<lparr>count = min MAX_REQUESTS m, lastReset = t0\<rparr>"
    unfolding m using assms(1) first window by (rule startServer_serve_opened)
  then have rec: "erl c = Some \<lparr>count = min MAX_REQUESTS m, lastReset = t0\<rparr>"
    unfolding run by simp
  have ip: "express_ip req = StringKey c" and api: "route \<noteq> NotApi"
    using nxt by (simp_all add: startServer_from_def)
  show "startServer env gc (route, Parsed req) now erl eu =
          (if m < 20
           then express_routes env gc route req
                  (erl(c \<mapsto> \<lparr>count = Suc m, lastReset = t0\<rparr>)) eu
           else \<lparr>response = Sent too_many_requests, calls = [], limiter = erl,
                  upstream = eu\<rparr>)"
    by (simp add: express_in_window [where rl = erl and c = c, OF rec ip api assms(2)]
          MAX_REQUESTS_def min_def)
next
  show "startServer env gc (route, Unparsable st) now rl u =
          \<lparr>response = ErrorPage st, calls = [], limiter = rl, upstream = u\<rparr>"
    by simp
next
  show "too_many_requests =
          \<lparr>res_status = 429,
           res_json = [(''error'', ''Too many requests. Please try again later.'')]\<rparr>"
    by (simp add: too_many_requests_def json_object_def)
qed

lemma sample_post_from:
  "rewrite_from ''203.0.113.7'' (sample_post, t)"
  "route \<noteq> NotApi \<Longrightarrow> express_from ''203.0.113.7'' ((route, sample_post), t)"
  "route \<noteq> NotApi \<Longrightarrow>
     express_from ''203.0.113.7'' ((route, sample_post\<lparr>req_method := ''GET''\<rparr>), t)"
  "verify_from ''203.0.113.7'' (sample_post, t)"
  "route \<noteq> NotApi \<Longrightarrow> startServer_from ''203.0.113.7'' ((route, Parsed sample_post), t)"
  by (simp_all add: rewrite_from_def express_from_def verify_from_def startServer_from_def
        rewrite_ip_def express_ip_def verify_ip_def sample_post_def first_forwarded_def
        js_or_def truthy_def)

theorem window_quota_witness:
  "response (rewrite_handler None scripted sample_post 60000
       (fst (serve (rewrite_handler None scripted)
               ((sample_post, 0) # replicate 19 (sample_post, 1000)) Map.empty []))
       (snd (serve (rewrite_handler None scripted)
               ((sample_post, 0) # replicate 19 (sample_post, 1000)) Map.empty []))) =
     Sent too_many_requests
   \<and> response (verify_handler_limited scripted sample_post 60000
       (fst (serve (verify_handler_limited scripted)
               ((sample_post, 0) # replicate 19 (sample_post, 1000)) Map.empty []))
       (snd (serve (verify_handler_limited scripted)
               ((sample_post, 0) # replicate 19 (sample_post, 1000)) Map.empty []))) =
     Sent too_many_requests
   \<and> response (startServer None scripted (ApiVerify, Parsed sample_post) 60000
       (fst (serve (startServer None scripted)
               (((ApiRewrite, Parsed sample_post), 0)
                # replicate 19 ((ApiVerify, Parsed sample_post), 5)) Map.empty []))
       (snd (serve (startServer None scripted)
               (((ApiRewrite, Parsed sample_post), 0)
                # replicate 19 ((ApiVerify, Parsed sample_post), 5)) Map.empty []))) =
     Sent too_many_requests"
proof -
  let ?c = "''203.0.113.7''"
  let ?rs = "replicate 19 (sample_post, 1000::int)"
  let ?ers = "replicate 19 ((ApiVerify, Parsed sample_post), 5::int)"
  let ?run = "serve (rewrite_handler None scripted) ((sample_post, 0) # ?rs) Map.empty []"
  let ?vrun = "serve (verify_handler_limited scripted) ((sample_post, 0) # ?rs) Map.empty []"
  let ?erun = "serve (startServer None scripted) (((ApiRewrite, Parsed sample_post), 0) # ?ers)
                 Map.empty []"
  have opener: "(Map.empty :: rate_map) ?c = None
                  \<or> (\<exists>r. (Map.empty :: rate_map) ?c = Some r \<and> 0 - lastReset r > WINDOW_MS)"
    by simp
  have win: "(60000::int) - 0 \<le> WINDOW_MS"
    by (simp add: WINDOW_MS_def)
  have all: "\<forall>(r, t) \<in> set ?rs. rewrite_from ?c (r, t) \<longrightarrow> t - 0 \<le> WINDOW_MS"
    and vall: "\<forall>(r, t) \<in> set ?rs. verify_from ?c (r, t) \<longrightarrow> t - 0 \<le> WINDOW_MS"
    and eall: "\<forall>(r, t) \<in> set ?ers. startServer_from ?c (r, t) \<longrightarrow> t - 0 \<le> WINDOW_MS"
    by (simp_all add: WINDOW_MS_def)
  have run: "?run = (fst ?run, snd ?run)" and vrun: "?vrun = (fst ?vrun, snd ?vrun)"
    and erun: "?erun = (fst ?erun, snd ?erun)"
    by simp_all
  have n: "20 = Suc (length (filter (rewrite_from ?c) ?rs))"
    and j: "20 = Suc (length (filter (verify_from ?c) ?rs))"
    and m: "20 = Suc (length (filter (startServer_from ?c) ?ers))"
    by (simp_all add: sample_post_from)
  have e1: "startServer_from ?c ((ApiRewrite, Parsed sample_post), 0)"
    and e2: "startServer_from ?c ((ApiVerify, Parsed sample_post), 60000)"
    by (simp_all add: sample_post_from)
  note inst = window_quota [where c = ?c and rl = Map.empty and n = 20 and j = 20 and m = 20,
      OF opener win]
  have "rewrite_handler None scripted sample_post 60000 (fst ?run) (snd ?run) =
          \<lparr>response = Sent too_many_requests, calls = [], limiter = fst ?run,
            upstream = snd ?run\<rparr>"
    using inst [THEN conjunct1, THEN mp, OF sample_post_from(1), THEN mp, OF all,
        THEN mp, OF sample_post_from(1), THEN mp, OF run, THEN mp, OF n]
    by simp
  moreover
  have "verify_handler_limited scripted sample_post 60000 (fst ?vrun) (snd ?vrun) =
          \<lparr>response = Sent too_many_requests, calls = [], limiter = fst ?vrun,
            upstream = snd ?vrun\<rparr>"
    using inst [THEN conjunct2, THEN conjunct1, THEN mp, OF sample_post_from(4), THEN mp,
        OF vall, THEN mp, OF sample_post_from(4), THEN mp, OF vrun, THEN mp, OF j]
    by simp
  moreover
  have "startServer None scripted (ApiVerify, Parsed sample_post) 60000 (fst ?erun) (snd ?erun) =
          \<lparr>response = Sent too_many_requests, calls = [], limiter = fst ?erun,
            upstream = snd ?erun\<rparr>"
    using inst [THEN conjunct2, THEN conjunct2, THEN conjunct1, THEN mp, OF e1,
        THEN mp, OF eall, THEN mp, OF e2, THEN mp, OF erun, THEN mp, OF m]
    by simp
  ultimately show ?thesis
    by simp
qed

section \<open>A new window\<close>

text \<open>
  C4. A request of the client \<open>c\<close> that finds no record of \<open>c\<close>, or a record whose window
  started more than 60,000 ms before, is decided on a record with count 0 and window start
  \<open>now\<close>: the limiter admits it and stores count 1 with window start \<open>now\<close>, whatever the
  old count was, also when it had reached the maximum. The serverless rewrite handler and
  the Express server then go on with the request, with that record in the map.
\<close>

theorem window_reset:
  assumes "rl c = None \<or> (\<exists>r. rl c = Some r \<and> now - lastReset r > WINDOW_MS)"
  shows "rateLimiterMiddleware (StringKey c) now rl =
           (True, rl(c \<mapsto> \<lparr>count = 1, lastReset = now\<rparr>))
       \<and> (rewrite_ip req = StringKey c \<longrightarrow>
            rewrite_handler env gc req now rl u =
              rewrite_admitted env gc req (rl(c \<mapsto> \<lparr>count = 1, lastReset = now\<rparr>)) u
          \<and> limiter (rewrite_handler env gc req now rl u) c =
              Some \<lparr>count = 1, lastReset = now\<rparr>)
       \<and> (route \<noteq> NotApi \<and> express_ip req = StringKey c \<longrightarrow>
            express_server env gc route req now rl u =
              express_routes env gc route req (rl(c \<mapsto> \<lparr>count = 1, lastReset = now\<rparr>)) u
          \<and> limiter (express_server env gc route req now rl u) c =
              Some \<lparr>count = 1, lastReset = now\<rparr>)"
proof -
  have adm: "rateLimiterMiddleware (StringKey c) now rl =
               (True, rl(c \<mapsto> \<lparr>count = 1, lastReset = now\<rparr>))"
    using assms by (rule limiter_fresh)
  have "rewrite_handler env gc req now rl u =
          rewrite_admitted env gc req (rl(c \<mapsto> \<lparr>count = 1, lastReset = now\<rparr>)) u"
    if "rewrite_ip req = StringKey c"
    using adm that by (simp add: rewrite_handler_def)
  moreover
  have "express_server env gc route req now rl u =
          express_routes env gc route req (rl(c \<mapsto> \<lparr>count = 1, lastReset = now\<rparr>)) u"
    if "route \<noteq> NotApi" "express_ip req = StringKey c"
    using adm that by (simp add: express_server_def)
  ultimately show ?thesis
    using adm by simp
qed

theorem window_reset_witness:
  "rateLimiterMiddleware (StringKey ''203.0.113.7'') 60001
     [''203.0.113.7'' \<mapsto> \<lparr>count = 20, lastReset = 0\<rparr>] =
     (True, [''203.0.113.7'' \<mapsto> \<lparr>count = 20, lastReset = 0\<rparr>]
              (''203.0.113.7'' \<mapsto> \<lparr>count = 1, lastReset = 60001\<rparr>))
   \<and> limiter (rewrite_handler None scripted sample_post 60001
                [''203.0.113.7'' \<mapsto> \<lparr>count = 20, lastReset = 0\<rparr>] []) ''203.0.113.7'' =
       Some \<lparr>count = 1, lastReset = 60001\<rparr>
   \<and> limiter (express_server None scripted ApiVerify sample_post 60001
                [''203.0.113.7'' \<mapsto> \<lparr>count = 20, lastReset = 0\<rparr>] []) ''203.0.113.7'' =
       Some \<lparr>count = 1, lastReset = 60001\<rparr>"
proof -
  let ?rl = "[''203.0.113.7'' \<mapsto> \<lparr>count = 20, lastReset = 0\<rparr>]"
  have elapsed: "?rl ''203.0.113.7'' = None
                   \<or> (\<exists>r. ?rl ''203.0.113.7'' = Some r \<and> 60001 - lastReset r > WINDOW_MS)"
    by (simp add: WINDOW_MS_def)
  have ips: "rewrite_ip sample_post = StringKey ''203.0.113.7''"
    "ApiVerify \<noteq> NotApi \<and> express_ip sample_post = StringKey ''203.0.113.7''"
    by (simp_all add: rewrite_ip_def express_ip_def sample_post_def first_forwarded_def
          js_or_def truthy_def)
  from window_reset [where rl = ?rl and c = "''203.0.113.7''" and req = sample_post
      and route = ApiVerify and env = None and gc = scripted and u = "[]", OF elapsed] ips
  show ?thesis
    by blast
qed

section \<open>Requests with another method than POST\<close>

text \<open>
  C10. The serverless rewrite handler counts a request before it looks at the method. A
  request of another method than POST that the limiter admits is answered 405, and the
  record of its client is stored with the count raised by one. So when a window of the client
  \<open>c\<close> opens with such a request and 19 more of them follow within the window, the next
  request of \<open>c\<close> within the window, of whatever method and body, is answered 429 and makes
  no upstream call. A request of another method than POST that the limiter rejects is
  answered 429, not 405. In the Express server the middleware counts in the same way before
  any route is tried: after 20 such requests under \<^verbatim>\<open>/api/\<close> the next one is answered 429.
\<close>

theorem non_post_consumes_quota:
  fixes rs :: "(request \<times> int) list" and ers :: "((endpoint \<times> request) \<times> int) list"
  assumes "req_method req \<noteq> ''POST''"
  shows "(rewrite_ip req = StringKey c \<longrightarrow> rl c = Some \<lparr>count = k, lastReset = t0\<rparr> \<longrightarrow>
          now - t0 \<le> WINDOW_MS \<longrightarrow> k < MAX_REQUESTS \<longrightarrow>
          rewrite_handler env gc req now rl u =
            \<lparr>response = Sent method_not_allowed, calls = [],
             limiter = rl(c \<mapsto> \<lparr>count = Suc k, lastReset = t0\<rparr>), upstream = u\<rparr>)
       \<and> (rateLimiterMiddleware (rewrite_ip req) now rl = (False, rl') \<longrightarrow>
          response (rewrite_handler env gc req now rl u) = Sent too_many_requests)
       \<and> res_status too_many_requests = 429 \<and> res_status method_not_allowed = 405
       \<and> ((rl c = None \<or> (\<exists>r. rl c = Some r \<and> t0 - lastReset r > WINDOW_MS)) \<longrightarrow>
          rewrite_ip req = StringKey c \<longrightarrow>
          (\<forall>(r, t) \<in> set rs. rewrite_ip r = StringKey c \<and> req_method r \<noteq> ''POST''
                                \<and> t - t0 \<le> WINDOW_MS) \<longrightarrow>
          length rs = 19 \<longrightarrow>
          rewrite_ip post = StringKey c \<longrightarrow> req_method post = ''POST'' \<longrightarrow>
          now - t0 \<le> WINDOW_MS \<longrightarrow>
          serve (rewrite_handler env gc) ((req, t0) # rs) rl u = (rl', u') \<longrightarrow>
          rewrite_handler env gc post now rl' u' =
            \<lparr>response = Sent too_many_requests, calls = [], limiter = rl', upstream = u'\<rparr>)
       \<and> ((rl c = None \<or> (\<exists>r. rl c = Some r \<and> t0 - lastReset r > WINDOW_MS)) \<longrightarrow>
          route \<noteq> NotApi \<longrightarrow> express_ip req = StringKey c \<longrightarrow>
          (\<forall>((e, r), t) \<in> set ers. e \<noteq> NotApi \<and> express_ip r = StringKey c
                                     \<and> req_method r \<noteq> ''POST'' \<and> t - t0 \<le> WINDOW_MS) \<longrightarrow>
          length ers = 19 \<longrightarrow>
          express_ip post = StringKey c \<longrightarrow> req_method post = ''POST'' \<longrightarrow>
          now - t0 \<le> WINDOW_MS \<longrightarrow>
          serve (express_app env gc) (((route, req), t0) # ers) rl u = (erl, eu) \<longrightarrow>
          express_server env gc ApiRewrite post now erl eu =
            \<lparr>response = Sent too_many_requests, calls = [], limiter = erl, upstream = eu\<rparr>)"
proof (intro conjI impI)
  assume "rewrite_ip req = StringKey c" "rl c = Some \<lparr>count = k, lastReset = t0\<rparr>"
    "now - t0 \<le> WINDOW_MS" "k < MAX_REQUESTS"
  then show "rewrite_handler env gc req now rl u =
            \<lparr>response = Sent method_not_allowed, calls = [],
             limiter = rl(c \<mapsto> \<lparr>count = Suc k, lastReset = t0\<rparr>), upstream = u\<rparr>"
    using assms
    by (simp add: rewrite_in_window [where rl = rl and c = c] rewrite_admitted_def)
next
  assume "rateLimiterMiddleware (rewrite_ip req) now rl = (False, rl')"
  then show "response (rewrite_handler env gc req now rl u) = Sent too_many_requests"
    by (simp add: rewrite_handler_rejected)
next
  show "res_status too_many_requests = 429" "res_status method_not_allowed = 405"
    by (simp_all add: too_many_requests_def method_not_allowed_def)
next
  assume opener: "rl c = None \<or> (\<exists>r. rl c = Some r \<and> t0 - lastReset r > WINDOW_MS)"
    and first: "rewrite_ip req = StringKey c"
    and all: "\<forall>(r, t) \<in> set rs. rewrite_ip r = StringKey c \<and> req_method r \<noteq> ''POST''
                                \<and> t - t0 \<le> WINDOW_MS"
    and len: "length rs = 19"
    and nxt: "rewrite_ip post = StringKey c"
    and win: "now - t0 \<le> WINDOW_MS"
    and run: "serve (rewrite_handler env gc) ((req, t0) # rs) rl u = (rl', u')"
  have keep: "filter (rewrite_from c) rs = rs"
    using all by (auto simp: rewrite_from_def filter_id_conv)
  have "fst (serve (rewrite_handler env gc) ((req, t0) # rs) rl u) c =
          Some \<lparr>count = min MAX_REQUESTS (Suc (length (filter (rewrite_from c) rs))),
                lastReset = t0\<rparr>"
    using opener first all by (intro rewrite_serve_opened) (auto simp: rewrite_from_def)
  then have rec: "rl' c = Some \<lparr>count = 20, lastReset = t0\<rparr>"
    unfolding run by (simp add: keep len MAX_REQUESTS_def)
  show "rewrite_handler env gc post now rl' u' =
          \<lparr>response = Sent too_many_requests, calls = [], limiter = rl', upstream = u'\<rparr>"
    by (simp add: rewrite_in_window [where rl = rl' and c = c, OF rec nxt win]
          MAX_REQUESTS_def)
next
  assume opener: "rl c = None \<or> (\<exists>r. rl c = Some r \<and> t0 - lastReset r > WINDOW_MS)"
    and api: "route \<noteq> NotApi"
    and first: "express_ip req = StringKey c"
    and all: "\<forall>((e, r), t) \<in> set ers. e \<noteq> NotApi \<and> express_ip r = StringKey c
                                     \<and> req_method r \<noteq> ''POST'' \<and> t - t0 \<le> WINDOW_MS"
    and len: "length ers = 19"
    and nxt: "express_ip post = StringKey c"
    and win: "now - t0 \<le> WINDOW_MS"
    and run: "serve (express_app env gc) (((route, req), t0) # ers) rl u = (erl, eu)"
  have keep: "filter (express_from c) ers = ers"
    using all by (auto simp: express_from_def filter_id_conv)
  have "fst (serve (express_app env gc) (((route, req), t0) # ers) rl u) c =
          Some \<lparr>count = min MAX_REQUESTS (Suc (length (filter (express_from c) ers))),
                lastReset = t0\<rparr>"
    using opener api first all
    by (intro express_serve_opened) (auto simp: express_from_def)
  then have rec: "erl c = Some \<lparr>count = 20, lastReset = t0\<rparr>"
    unfolding run by (simp add: keep len MAX_REQUESTS_def)
  have "ApiRewrite \<noteq> NotApi" by simp
  from express_in_window [where rl = erl and c = c, OF rec nxt this win]
  show "express_server env gc ApiRewrite post now erl eu =
          \<lparr>response = Sent too_many_requests, calls = [], limiter = erl, upstream = eu\<rparr>"
    by (simp add: MAX_REQUESTS_def)
qed


theorem non_post_consumes_quota_witness:
  "rewrite_handler None scripted (sample_post\<lparr>req_method := ''GET''\<rparr>) 2000
     [''203.0.113.7'' \<mapsto> \<lparr>count = 3, lastReset = 0\<rparr>] [] =
     \<lparr>response = Sent method_not_allowed, calls = [],
      limiter = [''203.0.113.7'' \<mapsto> \<lparr>count = 3, lastReset = 0\<rparr>]
                  (''203.0.113.7'' \<mapsto> \<lparr>count = Suc 3, lastReset = 0\<rparr>),
      upstream = []\<rparr>
   \<and> response (rewrite_handler None scripted (sample_post\<lparr>req_method := ''GET''\<rparr>) 2000
                 [''203.0.113.7'' \<mapsto> \<lparr>count = 20, lastReset = 0\<rparr>] []) =
       Sent too_many_requests
   \<and> response (rewrite_handler None scripted sample_post 2000
       (fst (serve (rewrite_handler None scripted)
               ((sample_post\<lparr>req_method := ''GET''\<rparr>, 0)
                # replicate 19 (sample_post\<lparr>req_method := ''GET''\<rparr>, 1000)) Map.empty []))
       (snd (serve (rewrite_handler None scripted)
               ((sample_post\<lparr>req_method := ''GET''\<rparr>, 0)
                # replicate 19 (sample_post\<lparr>req_method := ''GET''\<rparr>, 1000)) Map.empty []))) =
       Sent too_many_requests
   \<and> response (express_server None scripted ApiRewrite sample_post 2000
       (fst (serve (express_app None scripted)
               (((ApiRewrite, sample_post\<lparr>req_method := ''GET''\<rparr>), 0)
                # replicate 19 ((ApiVerify, sample_post\<lparr>req_method := ''GET''\<rparr>), 1000))
               Map.empty []))
       (snd (serve (express_app None scripted)
               (((ApiRewrite, sample_post\<lparr>req_method := ''GET''\<rparr>), 0)
                # replicate 19 ((ApiVerify, sample_post\<lparr>req_method := ''GET''\<rparr>), 1000))
               Map.empty []))) =
       Sent too_many_requests"
proof -
  let ?c = "''203.0.113.7''"
  let ?get = "sample_post\<lparr>req_method := ''GET''\<rparr>"
  let ?rs = "replicate 19 (?get, 1000::int)"
  let ?ers = "replicate 19 ((ApiVerify, ?get), 1000::int)"
  let ?run = "serve (rewrite_handler None scripted) ((?get, 0) # ?rs) Map.empty []"
  let ?erun = "serve (express_app None scripted) (((ApiRewrite, ?get), 0) # ?ers) Map.empty []"
  have get: "req_method ?get \<noteq> ''POST''"
    by simp
  have post: "req_method sample_post = ''POST''"
    by (rule sample_post_fields(1))
  have ip: "rewrite_ip ?get = StringKey ?c" "rewrite_ip sample_post = StringKey ?c"
    by (simp_all add: rewrite_ip_def sample_post_def)
  have eip: "express_ip ?get = StringKey ?c" "express_ip sample_post = StringKey ?c"
    by (simp_all add: express_ip_def sample_post_def first_forwarded_def js_or_def truthy_def)
  have win: "(2000::int) - 0 \<le> WINDOW_MS" and below: "3 < MAX_REQUESTS"
    by (simp_all add: WINDOW_MS_def MAX_REQUESTS_def)
  have rec: "[?c \<mapsto> \<lparr>count = 3, lastReset = 0\<rparr>] ?c = Some \<lparr>count = 3, lastReset = 0\<rparr>"
    by simp
  have full: "rateLimiterMiddleware (rewrite_ip ?get) 2000
                [?c \<mapsto> \<lparr>count = 20, lastReset = 0\<rparr>] =
              (False, [?c \<mapsto> \<lparr>count = 20, lastReset = 0\<rparr>])"
    by (simp add: ip rateLimiterMiddleware_def rateLimit_get_def WINDOW_MS_def
          MAX_REQUESTS_def)
  have opener: "(Map.empty :: rate_map) ?c = None
                  \<or> (\<exists>r. (Map.empty :: rate_map) ?c = Some r \<and> 0 - lastReset r > WINDOW_MS)"
    by simp
  have all: "\<forall>(r, t) \<in> set ?rs. rewrite_ip r = StringKey ?c \<and> req_method r \<noteq> ''POST''
                                  \<and> t - 0 \<le> WINDOW_MS"
    using ip(1) by (simp add: WINDOW_MS_def)
  have eall: "\<forall>((e, r), t) \<in> set ?ers. e \<noteq> NotApi \<and> express_ip r = StringKey ?c
                                       \<and> req_method r \<noteq> ''POST'' \<and> t - 0 \<le> WINDOW_MS"
    using eip(1) by (simp add: WINDOW_MS_def)
  have len: "length ?rs = 19" "length ?ers = 19"
    by simp_all
  have api: "ApiRewrite \<noteq> NotApi"
    by simp
  have run: "?run = (fst ?run, snd ?run)" and erun: "?erun = (fst ?erun, snd ?erun)"
    by simp_all
  have a: "rewrite_handler None scripted ?get 2000 [?c \<mapsto> \<lparr>count = 3, lastReset = 0\<rparr>] [] =
     \<lparr>response = Sent method_not_allowed, calls = [],
      limiter = [?c \<mapsto> \<lparr>count = 3, lastReset = 0\<rparr>](?c \<mapsto> \<lparr>count = Suc 3, lastReset = 0\<rparr>),
      upstream = []\<rparr>"
    by (rule non_post_consumes_quota [where c = ?c
          and rl = "[?c \<mapsto> \<lparr>count = 3, lastReset = 0\<rparr>]",
          OF get, THEN conjunct1, THEN mp, OF ip(1), THEN mp,
          OF rec, THEN mp, OF win, THEN mp, OF below])
  have b: "response (rewrite_handler None scripted ?get 2000
                 [?c \<mapsto> \<lparr>count = 20, lastReset = 0\<rparr>] []) = Sent too_many_requests"
    by (rule non_post_consumes_quota [where c = ?c
          and rl = "[?c \<mapsto> \<lparr>count = 20, lastReset = 0\<rparr>]",
          OF get, THEN conjunct2, THEN conjunct1, THEN mp, OF full])
  have c: "rewrite_handler None scripted sample_post 2000 (fst ?run) (snd ?run) =
            \<lparr>response = Sent too_many_requests, calls = [], limiter = fst ?run,
              upstream = snd ?run\<rparr>"
    by (rule non_post_consumes_quota [where c = ?c and rl = Map.empty,
          OF get, THEN conjunct2, THEN conjunct2, THEN conjunct2,
          THEN conjunct2, THEN conjunct1, THEN mp, OF opener, THEN mp, OF ip(1), THEN mp,
          OF all, THEN mp, OF len(1), THEN mp, OF ip(2), THEN mp, OF post, THEN mp, OF win,
          THEN mp, OF run])
  have d: "express_server None scripted ApiRewrite sample_post 2000 (fst ?erun) (snd ?erun) =
            \<lparr>response = Sent too_many_requests, calls = [], limiter = fst ?erun,
              upstream = snd ?erun\<rparr>"
    by (rule non_post_consumes_quota [where c = ?c and rl = Map.empty,
          OF get, THEN conjunct2, THEN conjunct2, THEN conjunct2,
          THEN conjunct2, THEN conjunct2, THEN mp, OF opener, THEN mp, OF api, THEN mp,
          OF eip(1), THEN mp, OF eall, THEN mp, OF len(2), THEN mp, OF eip(2), THEN mp,
          OF post, THEN mp, OF win, THEN mp, OF erun])
  show ?thesis
    unfolding a b c d by simp
qed

section \<open>The verify flow answers for the key of the request only\<close>

lemma verify_post_outcome:
  assumes "(out = verify_handler gc req rl u \<and> rl' = rl)
         \<or> (rateLimiterMiddleware (verify_ip req) now rl = (True, rl')
              \<and> out = verify_handler_limited gc req now rl u)
         \<or> (rateLimiterMiddleware (express_ip req) now rl = (True, rl')
              \<and> out = startServer env gc (ApiVerify, Parsed req) now rl u)"
    and "req_method req = ''POST''"
  shows "out = (case verify_try gc req u of
                  (res, cs, u') \<Rightarrow>
                    \<lparr>response = Sent res, calls = cs, limiter = rl', upstream = u'\<rparr>)"
  using assms
  by (auto simp: verify_handler_def verify_handler_limited_def express_server_def
        express_routes_def)

text \<open>
  C6, as the claim states it, fails in two places. The body of a failure has an \<open>error\<close>
  field only when the upstream error has a message: for an error without one the answer is
  400 with the status \<open>invalid\<close> alone. And a request without a body is not answered with
  \<open>API Key is required\<close>: reading the key throws, and the answer is 400 with the status
  \<open>invalid\<close> and the message of the TypeError.
\<close>

theorem verify_flow_counterexample:
  "response (verify_handler scripted sample_post Map.empty
               [Inl \<lparr>err_status = Some 503, err_message = None, err_error = None,
                     err_json = ''{}''\<rparr>]) =
     Sent \<lparr>res_status = 400, res_json = [(''status'', ''invalid'')]\<rparr>
   \<and> response (verify_handler scripted (sample_post\<lparr>req_body := Undefined\<rparr>) Map.empty []) =
     Sent \<lparr>res_status = 400,
           res_json = [(''status'', ''invalid''),
                       (''error'',
                        ''Cannot destructure property 'apiKey' of 'req.body' as it is undefined.'')]\<rparr>
   \<and> calls (verify_handler scripted (sample_post\<lparr>req_body := Undefined\<rparr>) Map.empty []) = []"
  by (simp add: verify_handler_def verify_try_def verify_invalid_def verify_type_error_def
        sample_post_def json_object_def)

text \<open>
  C6, amended. Take a POST request handled by a serverless verify handler or by the Express
  verify route, admitted by the limiter where there is one. The server's default key \<open>env\<close>
  is never used. When the request has no body (\<^verbatim>\<open>req.body\<close> undefined or null), the answer is
  400 with status \<open>invalid\<close> and the message of the TypeError, and no upstream call is made.
  When the body has no key (missing or empty), the answer is 400 with the error
  \<open>API Key is required\<close>, and no upstream call is made. With a key \<open>k\<close> exactly one call is
  made, with \<open>k\<close>, to the flash model, with the text \<open>Hi\<close> and no configuration, hence no
  system instruction. Any error \<open>e\<close> of that call is answered 400 with status \<open>invalid\<close>,
  and with the message of \<open>e\<close> as \<open>error\<close> when \<open>e\<close> has a message; a result is answered 200
  with status \<open>valid\<close>.
\<close>

theorem verify_flow:
  assumes "(out = verify_handler gc req rl u \<and> rl' = rl)
         \<or> (rateLimiterMiddleware (verify_ip req) now rl = (True, rl')
              \<and> out = verify_handler_limited gc req now rl u)
         \<or> (rateLimiterMiddleware (express_ip req) now rl = (True, rl')
              \<and> out = startServer env gc (ApiVerify, Parsed req) now rl u)"
    and "req_method req = ''POST''"
  shows "(req_body req = Undefined \<longrightarrow>
            response out =
              Sent \<lparr>res_status = 400,
                    res_json = [(''status'', ''invalid''),
                      (''error'',
                       ''Cannot destructure property 'apiKey' of 'req.body' as it is undefined.'')]\<rparr>
          \<and> calls out = [] \<and> upstream out = u)
       \<and> (req_body req = Null \<longrightarrow>
            response out =
              Sent \<lparr>res_status = 400,
                    res_json = [(''status'', ''invalid''),
                      (''error'',
                       ''Cannot destructure property 'apiKey' of 'req.body' as it is null.'')]\<rparr>
          \<and> calls out = [] \<and> upstream out = u)
       \<and> (\<forall>b. req_body req = Object b \<and> \<not> truthy (body_apiKey b) \<longrightarrow>
            response out =
              Sent \<lparr>res_status = 400, res_json = [(''error'', ''API Key is required'')]\<rparr>
          \<and> calls out = [] \<and> upstream out = u)
       \<and> (\<forall>b k. req_body req = Object b \<and> body_apiKey b = Some k \<and> k \<noteq> [] \<longrightarrow>
            calls out =
              [\<lparr>call_apiKey = k, call_model = ''gemini-3-flash-preview'',
                call_text = Some ''Hi'', call_config = None\<rparr>]
          \<and> (\<forall>e v. gc (verify_call k) u = (Inl e, v) \<longrightarrow>
                response out =
                  Sent \<lparr>res_status = 400,
                        res_json = (case err_message e of
                                      None \<Rightarrow> [(''status'', ''invalid'')]
                                    | Some m \<Rightarrow> [(''status'', ''invalid''), (''error'', m)])\<rparr>
              \<and> upstream out = v)
          \<and> (\<forall>r v. gc (verify_call k) u = (Inr r, v) \<longrightarrow>
                response out =
                  Sent \<lparr>res_status = 200, res_json = [(''status'', ''valid'')]\<rparr>
              \<and> upstream out = v))"
proof -
  have out: "out = (case verify_try gc req u of
                  (res, cs, u') \<Rightarrow>
                    \<lparr>response = Sent res, calls = cs, limiter = rl', upstream = u'\<rparr>)"
    using assms by (rule verify_post_outcome)
  show ?thesis
    unfolding out
    by (auto simp: verify_try_def verify_call_def truthy_def json_object_def
          verify_invalid_explicit verify_type_error_def
          split: option.splits sum.splits prod.splits)
qed

theorem verify_flow_witness:
  "response (startServer (Some ''server-key'') scripted (ApiVerify, Parsed (sample_with_key None))
               0 Map.empty []) =
     Sent \<lparr>res_status = 400, res_json = [(''error'', ''API Key is required'')]\<rparr>
   \<and> calls (startServer (Some ''server-key'') scripted (ApiVerify, Parsed (sample_with_key None))
               0 Map.empty []) = []
   \<and> calls (verify_handler scripted sample_post Map.empty [Inl quota_error]) =
       [\<lparr>call_apiKey = ''user-key'', call_model = ''gemini-3-flash-preview'',
         call_text = Some ''Hi'', call_config = None\<rparr>]
   \<and> response (verify_handler scripted sample_post Map.empty [Inl quota_error]) =
       Sent \<lparr>res_status = 400,
             res_json = [(''status'', ''invalid''), (''error'', ''model overloaded'')]\<rparr>
   \<and> response (verify_handler_limited scripted sample_post 0 Map.empty
                  [Inr \<lparr>result_text = Some ''Hello''\<rparr>]) =
       Sent \<lparr>res_status = 200, res_json = [(''status'', ''valid'')]\<rparr>
   \<and> response (verify_handler scripted (sample_post\<lparr>req_body := Null\<rparr>) Map.empty []) =
       Sent \<lparr>res_status = 400,
             res_json = [(''status'', ''invalid''),
               (''error'', ''Cannot destructure property 'apiKey' of 'req.body' as it is null.'')]\<rparr>
   \<and> response (verify_handler scripted (sample_post\<lparr>req_body := Undefined\<rparr>) Map.empty []) =
       Sent \<lparr>res_status = 400,
             res_json = [(''status'', ''invalid''),
               (''error'',
                ''Cannot destructure property 'apiKey' of 'req.body' as it is undefined.'')]\<rparr>"
proof -
  let ?nokey = "sample_with_key None"
  let ?null = "sample_post\<lparr>req_body := Null\<rparr>"
  let ?undef = "sample_post\<lparr>req_body := Undefined\<rparr>"
  let ?b = "\<lparr>body_text = Some ''The weather is nice today.'', body_apiKey = Some ''user-key''\<rparr>"
  let ?rl = "[''203.0.113.7'' \<mapsto> \<lparr>count = 1, lastReset = 0\<rparr>]"
  let ?out1 = "startServer (Some ''server-key'') scripted (ApiVerify, Parsed ?nokey) 0
                 Map.empty []"
  let ?out2 = "verify_handler scripted sample_post Map.empty [Inl quota_error]"
  let ?out3 = "verify_handler_limited scripted sample_post 0 Map.empty
                 [Inr \<lparr>result_text = Some ''Hello''\<rparr>]"
  let ?out4 = "verify_handler scripted ?null Map.empty []"
  let ?out5 = "verify_handler scripted ?undef Map.empty []"
  have ip: "verify_ip sample_post = express_ip sample_post"
    by (simp add: express_ip_def verify_ip_def sample_post_def first_forwarded_def
          js_or_def truthy_def)
  have adm1: "(?out1 = verify_handler scripted ?nokey Map.empty [] \<and> ?rl = Map.empty)
            \<or> (rateLimiterMiddleware (verify_ip ?nokey) 0 Map.empty = (True, ?rl)
                 \<and> ?out1 = verify_handler_limited scripted ?nokey 0 Map.empty [])
            \<or> (rateLimiterMiddleware (express_ip ?nokey) 0 Map.empty = (True, ?rl)
                 \<and> ?out1 = startServer (Some ''server-key'') scripted (ApiVerify, Parsed ?nokey)
                              0 Map.empty [])"
    by (simp add: sample_with_key_fields sample_post_admitted_express)
  have adm2: "(?out2 = verify_handler scripted sample_post Map.empty [Inl quota_error]
                 \<and> Map.empty = (Map.empty :: rate_map))
            \<or> (rateLimiterMiddleware (verify_ip sample_post) 0 Map.empty = (True, Map.empty)
                 \<and> ?out2 = verify_handler_limited scripted sample_post 0 Map.empty
                              [Inl quota_error])
            \<or> (rateLimiterMiddleware (express_ip sample_post) 0 Map.empty = (True, Map.empty)
                 \<and> ?out2 = startServer None scripted (ApiVerify, Parsed sample_post) 0
                              Map.empty [Inl quota_error])"
    by simp
  have adm3: "(?out3 = verify_handler scripted sample_post Map.empty
                         [Inr \<lparr>result_text = Some ''Hello''\<rparr>] \<and> ?rl = Map.empty)
            \<or> (rateLimiterMiddleware (verify_ip sample_post) 0 Map.empty = (True, ?rl)
                 \<and> ?out3 = verify_handler_limited scripted sample_post 0 Map.empty
                              [Inr \<lparr>result_text = Some ''Hello''\<rparr>])
            \<or> (rateLimiterMiddleware (express_ip sample_post) 0 Map.empty = (True, ?rl)
                 \<and> ?out3 = startServer None scripted (ApiVerify, Parsed sample_post) 0
                              Map.empty [Inr \<lparr>result_text = Some ''Hello''\<rparr>])"
    by (simp add: ip sample_post_admitted_express)
  have adm4: "(?out4 = verify_handler scripted ?null Map.empty []
                 \<and> Map.empty = (Map.empty :: rate_map))
            \<or> (rateLimiterMiddleware (verify_ip ?null) 0 Map.empty = (True, Map.empty)
                 \<and> ?out4 = verify_handler_limited scripted ?null 0 Map.empty [])
            \<or> (rateLimiterMiddleware (express_ip ?null) 0 Map.empty = (True, Map.empty)
                 \<and> ?out4 = startServer None scripted (ApiVerify, Parsed ?null) 0 Map.empty [])"
    by simp
  have adm5: "(?out5 = verify_handler scripted ?undef Map.empty []
                 \<and> Map.empty = (Map.empty :: rate_map))
            \<or> (rateLimiterMiddleware (verify_ip ?undef) 0 Map.empty = (True, Map.empty)
                 \<and> ?out5 = verify_handler_limited scripted ?undef 0 Map.empty [])
            \<or> (rateLimiterMiddleware (express_ip ?undef) 0 Map.empty = (True, Map.empty)
                 \<and> ?out5 = startServer None scripted (ApiVerify, Parsed ?undef) 0 Map.empty [])"
    by simp
  have post: "req_method ?nokey = ''POST''" "req_method sample_post = ''POST''"
    "req_method ?null = ''POST''" "req_method ?undef = ''POST''"
    by (simp_all add: sample_with_key_fields sample_post_def)
  have nokey: "req_body ?nokey =
                 Object \<lparr>body_text = Some ''The weather is nice today.'', body_apiKey = None\<rparr>
               \<and> \<not> truthy (body_apiKey
                     \<lparr>body_text = Some ''The weather is nice today.'', body_apiKey = None\<rparr>)"
    by (simp add: sample_with_key_fields truthy_def)
  have key: "req_body sample_post = Object ?b \<and> body_apiKey ?b = Some ''user-key''
               \<and> ''user-key'' \<noteq> []"
    by (simp add: sample_post_fields)
  have null: "req_body ?null = Null" and undef: "req_body ?undef = Undefined"
    by simp_all
  have fails: "scripted (verify_call ''user-key'') [Inl quota_error] = (Inl quota_error, [])"
    and works: "scripted (verify_call ''user-key'') [Inr \<lparr>result_text = Some ''Hello''\<rparr>] =
                  (Inr \<lparr>result_text = Some ''Hello''\<rparr>, [])"
    by simp_all
  have a: "response ?out1 =
             Sent \<lparr>res_status = 400, res_json = [(''error'', ''API Key is required'')]\<rparr>
           \<and> calls ?out1 = []"
    using verify_flow [OF adm1 post(1)] nokey by blast
  have b: "calls ?out2 =
             [\<lparr>call_apiKey = ''user-key'', call_model = ''gemini-3-flash-preview'',
               call_text = Some ''Hi'', call_config = None\<rparr>]
           \<and> response ?out2 =
               Sent \<lparr>res_status = 400,
                     res_json = (case err_message quota_error of
                                   None \<Rightarrow> [(''status'', ''invalid'')]
                                 | Some m \<Rightarrow> [(''status'', ''invalid''), (''error'', m)])\<rparr>"
    using verify_flow [OF adm2 post(2)] key fails by blast
  have c: "response ?out3 = Sent \<lparr>res_status = 200, res_json = [(''status'', ''valid'')]\<rparr>"
    using verify_flow [OF adm3 post(2)] key works by blast
  have d: "response ?out4 =
       Sent \<lparr>res_status = 400,
             res_json = [(''status'', ''invalid''),
               (''error'', ''Cannot destructure property 'apiKey' of 'req.body' as it is null.'')]\<rparr>"
    using verify_flow [OF adm4 post(3), THEN conjunct2, THEN conjunct1, THEN mp, OF null]
    by (rule conjunct1)
  have e: "response ?out5 =
       Sent \<lparr>res_status = 400,
             res_json = [(''status'', ''invalid''),
               (''error'',
                ''Cannot destructure property 'apiKey' of 'req.body' as it is undefined.'')]\<rparr>"
    using verify_flow [OF adm5 post(4), THEN conjunct1, THEN mp, OF undef]
    by (rule conjunct1)
  from a b c show ?thesis
    unfolding d e by (simp add: quota_error_def)
qed

section \<open>Which key the rewrite flow uses\<close>

text \<open>
  C5, as the claim states it, fails: the handlers never trim the key of the request. A key
  that is one blank trims to the empty string, so with no default key the claim expects 401
  and no upstream call; the handler calls the pro model with the blank as the key. A key
  with blanks around it is sent with the blanks.
\<close>

theorem credential_trim_counterexample:
  "spec_trim '' '' = []
   \<and> calls (rewrite_handler None scripted (sample_with_key (Some '' '')) 0 Map.empty []) =
       [pro_call '' '' (Some ''The weather is nice today.'')]
   \<and> response (rewrite_handler None scripted (sample_with_key (Some '' '')) 0 Map.empty [])
       \<noteq> Sent key_missing
   \<and> spec_trim '' user-key '' = ''user-key''
   \<and> map call_apiKey
         (calls (rewrite_handler None scripted (sample_with_key (Some '' user-key '')) 0
                   Map.empty [])) =
       ['' user-key '']"
  by (simp add: spec_trim_def is_space_def rewrite_handler_def rewrite_admitted_def
        rewrite_try_def rateLimiterMiddleware_def rateLimit_get_def rateLimit_set_def
        rewrite_ip_def MAX_REQUESTS_def sample_post_def sample_with_key_def js_or_def
        truthy_def isQuotaError_def network_error_def server_error_def key_missing_def
        json_object_def pro_call_def Let_def)

text \<open>
  C5, amended. Take a POST request that the limiter admits, handled by the serverless rewrite
  handler or by the Express rewrite route. When the request has a body: a key of the request
  that is a non-empty string is used as it is, untrimmed, for every upstream call; without
  one, a non-empty default key of the server is used; without either, the answer is 401 with
  a message that asks to configure or provide a key, and no upstream call is made. When the
  request has no body (\<^verbatim>\<open>req.body\<close> undefined or null), no key is resolved at all: the
  answer is 500 with the message of the TypeError, whether the server has a default key or
  not, and no upstream call is made.
\<close>

theorem credential_resolution:
  assumes "(rateLimiterMiddleware (rewrite_ip req) now rl = (True, rl')
              \<and> out = rewrite_handler env gc req now rl u)
         \<or> (rateLimiterMiddleware (express_ip req) now rl = (True, rl')
              \<and> out = startServer env gc (ApiRewrite, Parsed req) now rl u)"
    and "req_method req = ''POST''"
  shows "(\<forall>b k. req_body req = Object b \<and> body_apiKey b = Some k \<and> k \<noteq> [] \<longrightarrow>
            calls out \<noteq> [] \<and> (\<forall>c \<in> set (calls out). call_apiKey c = k))
       \<and> (\<forall>b d. req_body req = Object b \<and> \<not> truthy (body_apiKey b)
                 \<and> env = Some d \<and> d \<noteq> [] \<longrightarrow>
            calls out \<noteq> [] \<and> (\<forall>c \<in> set (calls out). call_apiKey c = d))
       \<and> (\<forall>b. req_body req = Object b \<and> \<not> truthy (body_apiKey b) \<and> \<not> truthy env \<longrightarrow>
            response out =
              Sent \<lparr>res_status = 401,
                    res_json = [(''error'',
                      ''API Key is missing. Please configure it in Vercel or provide one.'')]\<rparr>
          \<and> calls out = [] \<and> upstream out = u)
       \<and> (req_body req = Undefined \<longrightarrow>
            response out =
              Sent \<lparr>res_status = 500,
                    res_json = [(''error'',
                      ''Cannot destructure property 'text' of 'req.body' as it is undefined.'')]\<rparr>
          \<and> calls out = [] \<and> upstream out = u)
       \<and> (req_body req = Null \<longrightarrow>
            response out =
              Sent \<lparr>res_status = 500,
                    res_json = [(''error'',
                      ''Cannot destructure property 'text' of 'req.body' as it is null.'')]\<rparr>
          \<and> calls out = [] \<and> upstream out = u)"
proof -
  have out: "out = (case rewrite_try env gc req u of
                  (res, cs, u') \<Rightarrow>
                    \<lparr>response = Sent res, calls = cs, limiter = rl', upstream = u'\<rparr>)"
    using assms by (rule rewrite_post_outcome)
  have used: "calls out \<noteq> [] \<and> (\<forall>c \<in> set (calls out). call_apiKey c = k)"
    if "req_body req = Object b" "js_or (body_apiKey b) env = Some k" "k \<noteq> []" for b k
  proof -
    obtain p u1 where p: "gc (pro_call k (body_text b)) u = (p, u1)"
      by (cases "gc (pro_call k (body_text b)) u")
    obtain s u2 where s: "gc (flash_call k (body_text b)) u1 = (s, u2)"
      by (cases "gc (flash_call k (body_text b)) u1")
    show ?thesis
      unfolding out rewrite_try_cases [OF that p s]
      by (cases p) (simp_all add: pro_call_def flash_call_def)
  qed
  have none: "response out = Sent key_missing \<and> calls out = [] \<and> upstream out = u"
    if "req_body req = Object b" "\<not> truthy (body_apiKey b)" "\<not> truthy env" for b
  proof -
    have "\<not> truthy (js_or (body_apiKey b) env)"
      using that(2,3) by (simp add: js_or_def)
    then show ?thesis
      unfolding out by (simp add: rewrite_try_no_key [OF that(1)])
  qed
  have nobody: "response out = Sent (server_error (rewrite_type_error (req_body req)))
                  \<and> calls out = [] \<and> upstream out = u"
    if "req_body req = Undefined \<or> req_body req = Null"
    unfolding out by (simp add: rewrite_try_no_body [OF that])
  have first: "\<forall>b k. req_body req = Object b \<and> body_apiKey b = Some k \<and> k \<noteq> [] \<longrightarrow>
            calls out \<noteq> [] \<and> (\<forall>c \<in> set (calls out). call_apiKey c = k)"
    using used by (auto simp: js_or_def truthy_def)
  have second: "\<forall>b d. req_body req = Object b \<and> \<not> truthy (body_apiKey b)
                 \<and> env = Some d \<and> d \<noteq> [] \<longrightarrow>
            calls out \<noteq> [] \<and> (\<forall>c \<in> set (calls out). call_apiKey c = d)"
    using used by (auto simp: js_or_def)
  have third: "\<forall>b. req_body req = Object b \<and> \<not> truthy (body_apiKey b) \<and> \<not> truthy env \<longrightarrow>
            response out =
              Sent \<lparr>res_status = 401,
                    res_json = [(''error'',
                      ''API Key is missing. Please configure it in Vercel or provide one.'')]\<rparr>
          \<and> calls out = [] \<and> upstream out = u"
    using none by (auto simp: key_missing_def json_object_def)
  show ?thesis
    using first second third nobody
    by (simp add: server_error_explicit rewrite_type_error_def)
qed

theorem credential_resolution_witness:
  "map call_apiKey
     (calls (rewrite_handler (Some ''server-key'') scripted (sample_with_key (Some '' user-key ''))
               0 Map.empty [])) =
     ['' user-key '']
   \<and> map call_apiKey
       (calls (startServer (Some ''server-key'') scripted
                 (ApiRewrite, Parsed (sample_with_key (Some ''''))) 0 Map.empty [])) =
       [''server-key'']
   \<and> response (rewrite_handler None scripted (sample_with_key None) 0 Map.empty []) =
       Sent \<lparr>res_status = 401,
             res_json = [(''error'',
               ''API Key is missing. Please configure it in Vercel or provide one.'')]\<rparr>
   \<and> calls (rewrite_handler None scripted (sample_with_key None) 0 Map.empty []) = []
   \<and> response (rewrite_handler (Some ''server-key'') scripted
                 (sample_post\<lparr>req_body := Undefined\<rparr>) 0 Map.empty []) =
       Sent \<lparr>res_status = 500,
             res_json = [(''error'',
               ''Cannot destructure property 'text' of 'req.body' as it is undefined.'')]\<rparr>
   \<and> response (startServer (Some ''server-key'') scripted
                 (ApiRewrite, Parsed (sample_post\<lparr>req_body := Null\<rparr>)) 0 Map.empty []) =
       Sent \<lparr>res_status = 500,
             res_json = [(''error'',
               ''Cannot destructure property 'text' of 'req.body' as it is null.'')]\<rparr>"
proof -
  let ?rl = "[''203.0.113.7'' \<mapsto> \<lparr>count = 1, lastReset = 0\<rparr>]"
  let ?r1 = "sample_with_key (Some '' user-key '')"
  let ?r2 = "sample_with_key (Some '''')"
  let ?r3 = "sample_with_key None"
  let ?r4 = "sample_post\<lparr>req_body := Undefined\<rparr>"
  let ?r5 = "sample_post\<lparr>req_body := Null\<rparr>"
  let ?out1 = "rewrite_handler (Some ''server-key'') scripted ?r1 0 Map.empty []"
  let ?out2 = "startServer (Some ''server-key'') scripted (ApiRewrite, Parsed ?r2) 0 Map.empty []"
  let ?out3 = "rewrite_handler None scripted ?r3 0 Map.empty []"
  let ?out4 = "rewrite_handler (Some ''server-key'') scripted ?r4 0 Map.empty []"
  let ?out5 = "startServer (Some ''server-key'') scripted (ApiRewrite, Parsed ?r5) 0 Map.empty []"
  have ip: "rewrite_ip ?r4 = rewrite_ip sample_post" "express_ip ?r5 = express_ip sample_post"
    by (simp_all add: rewrite_ip_def express_ip_def)
  have adm1: "(rateLimiterMiddleware (rewrite_ip ?r1) 0 Map.empty = (True, ?rl)
                 \<and> ?out1 = rewrite_handler (Some ''server-key'') scripted ?r1 0 Map.empty [])
            \<or> (rateLimiterMiddleware (express_ip ?r1) 0 Map.empty = (True, ?rl)
                 \<and> ?out1 = startServer (Some ''server-key'') scripted (ApiRewrite, Parsed ?r1) 0
                              Map.empty [])"
    by (simp add: sample_with_key_fields sample_post_admitted_rewrite)
  have adm2: "(rateLimiterMiddleware (rewrite_ip ?r2) 0 Map.empty = (True, ?rl)
                 \<and> ?out2 = rewrite_handler (Some ''server-key'') scripted ?r2 0 Map.empty [])
            \<or> (rateLimiterMiddleware (express_ip ?r2) 0 Map.empty = (True, ?rl)
                 \<and> ?out2 = startServer (Some ''server-key'') scripted (ApiRewrite, Parsed ?r2) 0
                              Map.empty [])"
    by (simp add: sample_with_key_fields sample_post_admitted_express)
  have adm3: "(rateLimiterMiddleware (rewrite_ip ?r3) 0 Map.empty = (True, ?rl)
                 \<and> ?out3 = rewrite_handler None scripted ?r3 0 Map.empty [])
            \<or> (rateLimiterMiddleware (express_ip ?r3) 0 Map.empty = (True, ?rl)
                 \<and> ?out3 = startServer None scripted (ApiRewrite, Parsed ?r3) 0 Map.empty [])"
    by (simp add: sample_with_key_fields sample_post_admitted_rewrite)
  have adm4: "(rateLimiterMiddleware (rewrite_ip ?r4) 0 Map.empty = (True, ?rl)
                 \<and> ?out4 = rewrite_handler (Some ''server-key'') scripted ?r4 0 Map.empty [])
            \<or> (rateLimiterMiddleware (express_ip ?r4) 0 Map.empty = (True, ?rl)
                 \<and> ?out4 = startServer (Some ''server-key'') scripted (ApiRewrite, Parsed ?r4) 0
                              Map.empty [])"
    by (simp add: ip sample_post_admitted_rewrite)
  have adm5: "(rateLimiterMiddleware (rewrite_ip ?r5) 0 Map.empty = (True, ?rl)
                 \<and> ?out5 = rewrite_handler (Some ''server-key'') scripted ?r5 0 Map.empty [])
            \<or> (rateLimiterMiddleware (express_ip ?r5) 0 Map.empty = (True, ?rl)
                 \<and> ?out5 = startServer (Some ''server-key'') scripted (ApiRewrite, Parsed ?r5) 0
                              Map.empty [])"
    by (simp add: ip sample_post_admitted_express)
  have post: "req_method ?r1 = ''POST''" "req_method ?r2 = ''POST''" "req_method ?r3 = ''POST''"
    "req_method ?r4 = ''POST''" "req_method ?r5 = ''POST''"
    by (simp_all add: sample_with_key_fields sample_post_def)
  let ?b1 = "\<lparr>body_text = Some ''The weather is nice today.'', body_apiKey = Some '' user-key ''\<rparr>"
  let ?b2 = "\<lparr>body_text = Some ''The weather is nice today.'', body_apiKey = Some ''''\<rparr>"
  let ?b3 = "\<lparr>body_text = Some ''The weather is nice today.'', body_apiKey = None\<rparr>"
  have k1: "req_body ?r1 = Object ?b1 \<and> body_apiKey ?b1 = Some '' user-key ''
              \<and> '' user-key '' \<noteq> []"
    and k2: "req_body ?r2 = Object ?b2 \<and> \<not> truthy (body_apiKey ?b2)
              \<and> Some ''server-key'' = Some ''server-key'' \<and> ''server-key'' \<noteq> []"
    and k3: "req_body ?r3 = Object ?b3 \<and> \<not> truthy (body_apiKey ?b3) \<and> \<not> truthy None"
    by (simp_all add: sample_with_key_fields truthy_def)
  have undef: "req_body ?r4 = Undefined" and null: "req_body ?r5 = Null"
    by simp_all
  have a: "calls ?out1 \<noteq> [] \<and> (\<forall>c \<in> set (calls ?out1). call_apiKey c = '' user-key '')"
    using credential_resolution [OF adm1 post(1)] k1 by blast
  have b: "calls ?out2 \<noteq> [] \<and> (\<forall>c \<in> set (calls ?out2). call_apiKey c = ''server-key'')"
    using credential_resolution [OF adm2 post(2)] k2 by blast
  have c: "response ?out3 =
             Sent \<lparr>res_status = 401,
                   res_json = [(''error'',
                     ''API Key is missing. Please configure it in Vercel or provide one.'')]\<rparr>
           \<and> calls ?out3 = []"
    using credential_resolution [OF adm3 post(3)] k3 by blast
  have d: "response ?out4 =
       Sent \<lparr>res_status = 500,
             res_json = [(''error'',
               ''Cannot destructure property 'text' of 'req.body' as it is undefined.'')]\<rparr>"
    using credential_resolution [OF adm4 post(4), THEN conjunct2, THEN conjunct2,
        THEN conjunct2, THEN conjunct1, THEN mp, OF undef]
    by (rule conjunct1)
  have e: "response ?out5 =
       Sent \<lparr>res_status = 500,
             res_json = [(''error'',
               ''Cannot destructure property 'text' of 'req.body' as it is null.'')]\<rparr>"
    using credential_resolution [OF adm5 post(5), THEN conjunct2, THEN conjunct2,
        THEN conjunct2, THEN conjunct2, THEN mp, OF null]
    by (rule conjunct1)
  have one: "length (calls ?out1) = 1" "length (calls ?out2) = 1"
    by (simp_all add: rewrite_handler_def express_server_def express_routes_def
          rewrite_admitted_def rewrite_try_def rateLimiterMiddleware_def rateLimit_get_def
          rateLimit_set_def rewrite_ip_def express_ip_def first_forwarded_def MAX_REQUESTS_def
          sample_post_def sample_with_key_def js_or_def truthy_def isQuotaError_def
          network_error_def Let_def)
  have "map call_apiKey (calls ?out1) = ['' user-key '']"
    using a one(1) by (cases "calls ?out1") auto
  moreover have "map call_apiKey (calls ?out2) = [''server-key'']"
    using b one(2) by (cases "calls ?out2") auto
  ultimately show ?thesis
    using c unfolding d e by simp
qed

section \<open>The client identifier\<close>

text \<open>
  C7, as the claim states it, fails for the serverless rewrite handler: it never reads the
  peer address. A request without the header that comes from the peer \<open>10.0.0.7\<close> is counted
  under \<open>unknown\<close>, and no record is kept for \<open>10.0.0.7\<close>.
\<close>

theorem client_identifier_counterexample:
  "forwarded_for (sample_post\<lparr>forwarded_for := HeaderAbsent\<rparr>) = HeaderAbsent
   \<and> remoteAddress (sample_post\<lparr>forwarded_for := HeaderAbsent\<rparr>) = Some ''10.0.0.7''
   \<and> rewrite_ip (sample_post\<lparr>forwarded_for := HeaderAbsent\<rparr>) = StringKey ''unknown''
   \<and> rewrite_ip (sample_post\<lparr>forwarded_for := HeaderAbsent\<rparr>) \<noteq> StringKey ''10.0.0.7''
   \<and> limiter (rewrite_handler None scripted (sample_post\<lparr>forwarded_for := HeaderAbsent\<rparr>) 0
                Map.empty []) ''unknown'' = Some \<lparr>count = 1, lastReset = 0\<rparr>
   \<and> limiter (rewrite_handler None scripted (sample_post\<lparr>forwarded_for := HeaderAbsent\<rparr>) 0
                Map.empty []) ''10.0.0.7'' = None"
  by (simp add: limiter_rewrite_handler rewrite_ip_def sample_post_def
        rateLimiterMiddleware_def rateLimit_get_def rateLimit_set_def MAX_REQUESTS_def)

text \<open>
  C7, amended. The Express server takes the first value of the \<^verbatim>\<open>x-forwarded-for\<close> header
  (the string, or the first element of the array) when that is a non-empty string, otherwise
  the peer address when that is a non-empty string, otherwise \<open>unknown\<close>. The serverless
  handlers never read the peer address: the verify handler with a limiter takes the first
  value of the header when it is a non-empty string and \<open>unknown\<close> otherwise, and the
  rewrite handler takes a header that is a non-empty string and \<open>unknown\<close> when the header
  is missing or empty.
\<close>

theorem client_identifier:
  "(let peer = (case remoteAddress req of
                  None \<Rightarrow> ''unknown'' | Some a \<Rightarrow> if a = [] then ''unknown'' else a)
    in express_ip req =
         StringKey (case forwarded_for req of
                      HeaderAbsent \<Rightarrow> peer
                    | HeaderString s \<Rightarrow> if s = [] then peer else s
                    | HeaderArray xs \<Rightarrow>
                        (case xs of [] \<Rightarrow> peer | x # _ \<Rightarrow> if x = [] then peer else x)))
   \<and> verify_ip req =
       StringKey (case forwarded_for req of
                    HeaderAbsent \<Rightarrow> ''unknown''
                  | HeaderString s \<Rightarrow> if s = [] then ''unknown'' else s
                  | HeaderArray xs \<Rightarrow>
                      (case xs of [] \<Rightarrow> ''unknown''
                       | x # _ \<Rightarrow> if x = [] then ''unknown'' else x))
   \<and> (forwarded_for req = HeaderAbsent \<longrightarrow> rewrite_ip req = StringKey ''unknown'')
   \<and> (\<forall>s. forwarded_for req = HeaderString s \<longrightarrow>
          rewrite_ip req = StringKey (if s = [] then ''unknown'' else s))"
  by (auto simp: express_ip_def verify_ip_def rewrite_ip_def first_forwarded_def js_or_def
        truthy_def Let_def split: header_value.splits option.splits list.splits)

theorem client_identifier_witness:
  "express_ip (sample_post\<lparr>forwarded_for := HeaderArray ['''', ''198.51.100.1'']\<rparr>) =
     StringKey ''10.0.0.7''
   \<and> verify_ip (sample_post\<lparr>forwarded_for := HeaderArray [''198.51.100.1'', ''10.1.1.1'']\<rparr>) =
       StringKey ''198.51.100.1''
   \<and> rewrite_ip (sample_post\<lparr>forwarded_for := HeaderAbsent\<rparr>) = StringKey ''unknown''
   \<and> rewrite_ip sample_post = StringKey ''203.0.113.7''"
proof -
  have absent: "forwarded_for (sample_post\<lparr>forwarded_for := HeaderAbsent\<rparr>) = HeaderAbsent"
    and single: "forwarded_for sample_post = HeaderString ''203.0.113.7''"
    by (simp_all add: sample_post_def)
  have a: "express_ip (sample_post\<lparr>forwarded_for := HeaderArray ['''', ''198.51.100.1'']\<rparr>) =
             StringKey ''10.0.0.7''"
    using client_identifier
      [where req = "sample_post\<lparr>forwarded_for := HeaderArray ['''', ''198.51.100.1'']\<rparr>"]
    by (simp add: sample_post_def)
  have b: "verify_ip
             (sample_post\<lparr>forwarded_for := HeaderArray [''198.51.100.1'', ''10.1.1.1'']\<rparr>) =
           StringKey ''198.51.100.1''"
    using client_identifier
      [where req = "sample_post\<lparr>forwarded_for := HeaderArray [''198.51.100.1'', ''10.1.1.1'']\<rparr>"]
    by (simp add: sample_post_def)
  have c: "rewrite_ip (sample_post\<lparr>forwarded_for := HeaderAbsent\<rparr>) = StringKey ''unknown''"
    using client_identifier [where req = "sample_post\<lparr>forwarded_for := HeaderAbsent\<rparr>"]
      absent by blast
  have d: "rewrite_ip sample_post = StringKey (if ''203.0.113.7'' = [] then ''unknown''
                                               else ''203.0.113.7'')"
    using client_identifier [where req = sample_post] single by blast
  from a b c d show ?thesis
    by simp
qed

section \<open>The two rewrite variants\<close>

text \<open>
  C8, as the claim states it, fails. A POST request without the header from the peer
  \<open>10.0.0.7\<close>, arriving when the bucket \<open>unknown\<close> is full, is answered 429 by the serverless
  handler and 200 with the text by the Express route, which counts it under \<open>10.0.0.7\<close>. A
  GET request is answered 405 by the serverless handler and handed on by the Express server.
  The limiters differ in scope: after 20 verify requests of a client in one window, the
  Express server answers its rewrite request 429, while the serverless rewrite handler,
  whose map the verify requests have not touched, answers it 200.
\<close>

theorem variants_counterexample:
  "response (rewrite_handler None scripted (sample_post\<lparr>forwarded_for := HeaderAbsent\<rparr>) 10
               [''unknown'' \<mapsto> \<lparr>count = 20, lastReset = 0\<rparr>]
               [Inr \<lparr>result_text = Some ''It is a decent day.''\<rparr>]) =
     Sent too_many_requests
   \<and> response (startServer None scripted
                 (ApiRewrite, Parsed (sample_post\<lparr>forwarded_for := HeaderAbsent\<rparr>)) 10
                 [''unknown'' \<mapsto> \<lparr>count = 20, lastReset = 0\<rparr>]
                 [Inr \<lparr>result_text = Some ''It is a decent day.''\<rparr>]) =
       Sent \<lparr>res_status = 200, res_json = [(''text'', ''It is a decent day.'')]\<rparr>
   \<and> limiter (startServer None scripted
                (ApiRewrite, Parsed (sample_post\<lparr>forwarded_for := HeaderAbsent\<rparr>)) 10
                [''unknown'' \<mapsto> \<lparr>count = 20, lastReset = 0\<rparr>]
                [Inr \<lparr>result_text = Some ''It is a decent day.''\<rparr>]) ''10.0.0.7'' =
       Some \<lparr>count = 1, lastReset = 10\<rparr>
   \<and> response (rewrite_handler None scripted (sample_post\<lparr>req_method := ''GET''\<rparr>) 0
                 Map.empty []) = Sent method_not_allowed
   \<and> response (startServer None scripted
                 (ApiRewrite, Parsed (sample_post\<lparr>req_method := ''GET''\<rparr>)) 0
                 Map.empty []) = NextMiddleware
   \<and> response (startServer None accepting (ApiRewrite, Parsed sample_post) 1000
       (fst (serve (startServer None accepting)
               (replicate 20 ((ApiVerify, Parsed sample_post), 0)) Map.empty ()))
       (snd (serve (startServer None accepting)
               (replicate 20 ((ApiVerify, Parsed sample_post), 0)) Map.empty ()))) =
       Sent too_many_requests
   \<and> response (rewrite_handler None accepting sample_post 1000
       (fst (serverless_serve None accepting (replicate 20 (Verify, sample_post, 0))
               Map.empty Map.empty ()))
       (snd (snd (serverless_serve None accepting (replicate 20 (Verify, sample_post, 0))
                    Map.empty Map.empty ())))) =
       Sent \<lparr>res_status = 200, res_json = [(''text'', ''Hello'')]\<rparr>"
proof -
  have single:
    "response (rewrite_handler None scripted (sample_post\<lparr>forwarded_for := HeaderAbsent\<rparr>) 10
               [''unknown'' \<mapsto> \<lparr>count = 20, lastReset = 0\<rparr>]
               [Inr \<lparr>result_text = Some ''It is a decent day.''\<rparr>]) =
     Sent too_many_requests
   \<and> response (startServer None scripted
                 (ApiRewrite, Parsed (sample_post\<lparr>forwarded_for := HeaderAbsent\<rparr>)) 10
                 [''unknown'' \<mapsto> \<lparr>count = 20, lastReset = 0\<rparr>]
                 [Inr \<lparr>result_text = Some ''It is a decent day.''\<rparr>]) =
       Sent \<lparr>res_status = 200, res_json = [(''text'', ''It is a decent day.'')]\<rparr>
   \<and> limiter (startServer None scripted
                (ApiRewrite, Parsed (sample_post\<lparr>forwarded_for := HeaderAbsent\<rparr>)) 10
                [''unknown'' \<mapsto> \<lparr>count = 20, lastReset = 0\<rparr>]
                [Inr \<lparr>result_text = Some ''It is a decent day.''\<rparr>]) ''10.0.0.7'' =
       Some \<lparr>count = 1, lastReset = 10\<rparr>
   \<and> response (rewrite_handler None scripted (sample_post\<lparr>req_method := ''GET''\<rparr>) 0
                 Map.empty []) = Sent method_not_allowed
   \<and> response (startServer None scripted
                 (ApiRewrite, Parsed (sample_post\<lparr>req_method := ''GET''\<rparr>)) 0
                 Map.empty []) = NextMiddleware"
    by (simp add: rewrite_handler_def express_server_def express_routes_def
          rewrite_admitted_def rewrite_try_def rateLimiterMiddleware_def rateLimit_get_def
          rateLimit_set_def rewrite_ip_def express_ip_def first_forwarded_def MAX_REQUESTS_def
          WINDOW_MS_def sample_post_def js_or_def truthy_def json_object_def
          too_many_requests_def Let_def)
  have shared: "response (startServer None accepting (ApiRewrite, Parsed sample_post) 1000
       (fst (serve (startServer None accepting)
               (replicate 20 ((ApiVerify, Parsed sample_post), 0)) Map.empty ()))
       (snd (serve (startServer None accepting)
               (replicate 20 ((ApiVerify, Parsed sample_post), 0)) Map.empty ()))) =
       Sent too_many_requests"
    by code_simp
  have apart: "response (rewrite_handler None accepting sample_post 1000
       (fst (serverless_serve None accepting (replicate 20 (Verify, sample_post, 0))
               Map.empty Map.empty ()))
       (snd (snd (serverless_serve None accepting (replicate 20 (Verify, sample_post, 0))
                    Map.empty Map.empty ())))) =
       Sent \<lparr>res_status = 200, res_json = [(''text'', ''Hello'')]\<rparr>"
    by code_simp
  note parts = single [THEN conjunct1] single [THEN conjunct2, THEN conjunct1]
    single [THEN conjunct2, THEN conjunct2, THEN conjunct1]
    single [THEN conjunct2, THEN conjunct2, THEN conjunct2, THEN conjunct1]
    single [THEN conjunct2, THEN conjunct2, THEN conjunct2, THEN conjunct2]
  show ?thesis
    by (intro conjI) (rule parts shared apart)+
qed


text \<open>
  C8, amended. Take a POST request that the body parser of Express passes on, so that both
  variants read the same \<^verbatim>\<open>req.body\<close>, and for which both derive the same client identifier,
  that is, whose header is a non-empty string, or whose header is missing or empty while no
  peer address is known. For it the serverless rewrite handler and the Express rewrite route
  give the same outcome from the same limiter map, clock, default key and upstream: the same
  response, the same upstream calls and the same limiter map afterwards. The scope of the
  maps differs: in the serverless deployment verify requests leave the map of the rewrite
  handler as it is, while the Express server counts an admitted verify request in the one
  map it has.
\<close>

theorem variants_agree:
  assumes "req_method req = ''POST''"
    and "(\<exists>s. forwarded_for req = HeaderString s \<and> s \<noteq> [])
       \<or> ((forwarded_for req = HeaderAbsent \<or> forwarded_for req = HeaderString [])
            \<and> \<not> truthy (remoteAddress req))"
  shows "rewrite_handler env gc req now rl u =
           startServer env gc (ApiRewrite, Parsed req) now rl u
       \<and> ((\<forall>x \<in> set vs. fst x = Verify) \<longrightarrow>
            fst (serverless_serve env gc vs rl vm u) = rl)
       \<and> (express_ip req = StringKey c \<longrightarrow> rl c = Some \<lparr>count = k, lastReset = t0\<rparr> \<longrightarrow>
            now - t0 \<le> WINDOW_MS \<longrightarrow> k < MAX_REQUESTS \<longrightarrow>
            limiter (startServer env gc (ApiVerify, Parsed req) now rl u) c =
              Some \<lparr>count = Suc k, lastReset = t0\<rparr>)"
proof (intro conjI impI)
  have ip: "rewrite_ip req = express_ip req"
    using assms(2)
    by (auto simp: rewrite_ip_def express_ip_def first_forwarded_def js_or_def truthy_def
          split: option.splits)
  have same: "rewrite_admitted env gc req x u = express_routes env gc ApiRewrite req x u" for x
    using assms(1) by (simp add: rewrite_admitted_def express_routes_def)
  obtain a x where lim: "rateLimiterMiddleware (express_ip req) now rl = (a, x)"
    by (cases "rateLimiterMiddleware (express_ip req) now rl")
  show "rewrite_handler env gc req now rl u =
          startServer env gc (ApiRewrite, Parsed req) now rl u"
    by (cases a) (simp_all add: rewrite_handler_def express_server_def ip lim same)
next
  assume "\<forall>x \<in> set vs. fst x = Verify"
  then show "fst (serverless_serve env gc vs rl vm u) = rl"
    by (rule serverless_verify_only)
next
  assume "express_ip req = StringKey c" "rl c = Some \<lparr>count = k, lastReset = t0\<rparr>"
    "now - t0 \<le> WINDOW_MS" "k < MAX_REQUESTS"
  then show "limiter (startServer env gc (ApiVerify, Parsed req) now rl u) c =
               Some \<lparr>count = Suc k, lastReset = t0\<rparr>"
    by (simp add: express_in_window [where rl = rl and c = c])
qed

theorem variants_agree_witness:
  "rewrite_handler None scripted sample_post 0 Map.empty [Inl quota_error] =
     startServer None scripted (ApiRewrite, Parsed sample_post) 0 Map.empty [Inl quota_error]
   \<and> rewrite_handler None scripted
       (sample_post\<lparr>forwarded_for := HeaderAbsent, remoteAddress := None\<rparr>) 0 Map.empty [] =
     startServer None scripted
       (ApiRewrite, Parsed (sample_post\<lparr>forwarded_for := HeaderAbsent, remoteAddress := None\<rparr>))
       0 Map.empty []
   \<and> fst (serverless_serve None scripted [(Verify, sample_post, 0), (Verify, sample_post, 5)]
            [''203.0.113.7'' \<mapsto> \<lparr>count = 3, lastReset = 0\<rparr>] Map.empty []) =
       [''203.0.113.7'' \<mapsto> \<lparr>count = 3, lastReset = 0\<rparr>]
   \<and> limiter (startServer None scripted (ApiVerify, Parsed sample_post) 5
                [''203.0.113.7'' \<mapsto> \<lparr>count = 3, lastReset = 0\<rparr>] []) ''203.0.113.7'' =
       Some \<lparr>count = Suc 3, lastReset = 0\<rparr>"
proof -
  let ?anon = "sample_post\<lparr>forwarded_for := HeaderAbsent, remoteAddress := None\<rparr>"
  let ?rl = "[''203.0.113.7'' \<mapsto> \<lparr>count = 3, lastReset = 0\<rparr>]"
  have post: "req_method sample_post = ''POST''" "req_method ?anon = ''POST''"
    by (simp_all add: sample_post_def)
  have h1: "(\<exists>s. forwarded_for sample_post = HeaderString s \<and> s \<noteq> [])
          \<or> ((forwarded_for sample_post = HeaderAbsent
                \<or> forwarded_for sample_post = HeaderString [])
               \<and> \<not> truthy (remoteAddress sample_post))"
    by (simp add: sample_post_def)
  have h2: "(\<exists>s. forwarded_for ?anon = HeaderString s \<and> s \<noteq> [])
          \<or> ((forwarded_for ?anon = HeaderAbsent \<or> forwarded_for ?anon = HeaderString [])
               \<and> \<not> truthy (remoteAddress ?anon))"
    by (simp add: truthy_def)
  have verify_only: "\<forall>x \<in> set [(Verify, sample_post, 0::int), (Verify, sample_post, 5)].
                       fst x = Verify"
    by simp
  have ip: "express_ip sample_post = StringKey ''203.0.113.7''"
    by (simp add: express_ip_def sample_post_def first_forwarded_def js_or_def truthy_def)
  have rec: "?rl ''203.0.113.7'' = Some \<lparr>count = 3, lastReset = 0\<rparr>"
    by simp
  have win: "(5::int) - 0 \<le> WINDOW_MS" and below: "3 < MAX_REQUESTS"
    by (simp_all add: WINDOW_MS_def MAX_REQUESTS_def)
  note one = variants_agree [OF post(1) h1, where rl = Map.empty and now = 0 and env = None
      and gc = scripted and u = "[Inl quota_error]"]
  note two = variants_agree [OF post(2) h2, where rl = Map.empty and now = 0 and env = None
      and gc = scripted and u = "[]"]
  note three = variants_agree [OF post(1) h1, where rl = ?rl and now = 5 and env = None
      and gc = scripted and u = "[]" and c = "''203.0.113.7''" and vm = Map.empty]
  show ?thesis
    by (intro conjI)
       (rule one [THEN conjunct1] two [THEN conjunct1]
          three [THEN conjunct2, THEN conjunct1, THEN mp, OF verify_only]
          three [THEN conjunct2, THEN conjunct2, THEN mp, OF ip, THEN mp, OF rec, THEN mp,
            OF win, THEN mp, OF below])+
qed

section \<open>The bodies of the responses\<close>

text \<open>
  C9, as the claim states it, fails. When the pro model returns a result without text, the
  rewrite handler answers 200 with the empty object: the body has neither a \<open>text\<close> nor an
  \<open>error\<close> field. When the upstream error of a verify call has no message, the body is
  only the status \<open>invalid\<close>, without an \<open>error\<close> field. And the Express server answers a
  body that its parser refuses with an error page, which is not a JSON body.
\<close>

theorem response_bodies_counterexample:
  "response (rewrite_handler None scripted sample_post 0 Map.empty
               [Inr \<lparr>result_text = None\<rparr>]) =
     Sent \<lparr>res_status = 200, res_json = []\<rparr>
   \<and> response (verify_handler scripted sample_post Map.empty
                 [Inl \<lparr>err_status = Some 500, err_message = None, err_error = None,
                       err_json = ''{}''\<rparr>]) =
       Sent \<lparr>res_status = 400, res_json = [(''status'', ''invalid'')]\<rparr>
   \<and> response (startServer None scripted (ApiRewrite, Unparsable 400) 0 Map.empty []) =
       ErrorPage 400"
  by (simp add: rewrite_handler_def rewrite_admitted_def rewrite_try_def verify_handler_def
        verify_try_def verify_invalid_def rateLimiterMiddleware_def rateLimit_get_def
        rateLimit_set_def rewrite_ip_def MAX_REQUESTS_def sample_post_def js_or_def truthy_def
        json_object_def Let_def)

text \<open>
  C9, amended. The responses of the handlers are these, and no others.
  \<^item> A request that a limiter rejects is answered 429 with an \<open>error\<close> field.
  \<^item> A request of another method than POST that is admitted is answered 405 with an
    \<open>error\<close> field by a serverless handler; the Express server hands it on to the next
    middleware, as it does with every request outside the two routes.
  \<^item> A body that the parser of Express refuses is answered with an error page, not JSON.
  \<^item> Rewrite, for an admitted POST request: without a body 500 with the message of the
    TypeError as \<open>error\<close>; without a key 401 with an \<open>error\<close> field; when the last upstream
    call returns a result, 200 with the single field \<open>text\<close> if the result has a text and
    the empty object if it has none; when the last upstream call fails, the status of the
    error (or 500) with its message (or a default) as \<open>error\<close>.
  \<^item> Verify, for an admitted POST request: without a body 400 with status \<open>invalid\<close> and
    the message of the TypeError as \<open>error\<close>; without a key 400 with an \<open>error\<close> field;
    when the upstream call returns, 200 with status \<open>valid\<close>; when it fails, 400 with status
    \<open>invalid\<close>, and with the message as \<open>error\<close> exactly when the error has a message.
\<close>

theorem response_bodies:
  "(rateLimiterMiddleware (rewrite_ip req) now rl = (False, x) \<longrightarrow>
      response (rewrite_handler env gc req now rl u) =
        Sent \<lparr>res_status = 429,
              res_json = [(''error'', ''Too many requests. Please try again later.'')]\<rparr>)
   \<and> (rateLimiterMiddleware (verify_ip req) now rl = (False, x) \<longrightarrow>
      response (verify_handler_limited gc req now rl u) =
        Sent \<lparr>res_status = 429,
              res_json = [(''error'', ''Too many requests. Please try again later.'')]\<rparr>)
   \<and> (route \<noteq> NotApi \<longrightarrow> rateLimiterMiddleware (express_ip req) now rl = (False, x) \<longrightarrow>
      response (startServer env gc (route, Parsed req) now rl u) =
        Sent \<lparr>res_status = 429,
              res_json = [(''error'', ''Too many requests. Please try again later.'')]\<rparr>)
   \<and> (req_method req \<noteq> ''POST'' \<longrightarrow>
        (rateLimiterMiddleware (rewrite_ip req) now rl = (True, x) \<longrightarrow>
           response (rewrite_handler env gc req now rl u) =
             Sent \<lparr>res_status = 405, res_json = [(''error'', ''Method Not Allowed'')]\<rparr>)
      \<and> response (verify_handler gc req rl u) =
           Sent \<lparr>res_status = 405, res_json = [(''error'', ''Method Not Allowed'')]\<rparr>
      \<and> (rateLimiterMiddleware (verify_ip req) now rl = (True, x) \<longrightarrow>
           response (verify_handler_limited gc req now rl u) =
             Sent \<lparr>res_status = 405, res_json = [(''error'', ''Method Not Allowed'')]\<rparr>))
   \<and> (req_method req \<noteq> ''POST'' \<or> route = ApiOther \<or> route = NotApi \<longrightarrow>
      route = NotApi \<or> rateLimiterMiddleware (express_ip req) now rl = (True, x) \<longrightarrow>
      response (startServer env gc (route, Parsed req) now rl u) = NextMiddleware)
   \<and> response (startServer env gc (route, Unparsable st) now rl u) = ErrorPage st
   \<and> ((rateLimiterMiddleware (rewrite_ip req) now rl = (True, rl')
          \<and> out = rewrite_handler env gc req now rl u
        \<or> rateLimiterMiddleware (express_ip req) now rl = (True, rl')
          \<and> out = startServer env gc (ApiRewrite, Parsed req) now rl u) \<longrightarrow>
      req_method req = ''POST'' \<longrightarrow>
        (req_body req = Undefined \<longrightarrow>
           response out =
             Sent \<lparr>res_status = 500,
                   res_json = [(''error'',
                     ''Cannot destructure property 'text' of 'req.body' as it is undefined.'')]\<rparr>)
      \<and> (req_body req = Null \<longrightarrow>
           response out =
             Sent \<lparr>res_status = 500,
                   res_json = [(''error'',
                     ''Cannot destructure property 'text' of 'req.body' as it is null.'')]\<rparr>)
      \<and> (\<forall>b. req_body req = Object b \<and> \<not> truthy (js_or (body_apiKey b) env) \<longrightarrow>
           response out =
             Sent \<lparr>res_status = 401,
                   res_json = [(''error'',
                     ''API Key is missing. Please configure it in Vercel or provide one.'')]\<rparr>)
      \<and> (\<forall>b k p v s w.
            req_body req = Object b \<and> js_or (body_apiKey b) env = Some k \<and> k \<noteq> []
            \<and> gc (pro_call k (body_text b)) u = (p, v)
            \<and> gc (flash_call k (body_text b)) v = (s, w) \<longrightarrow>
            (\<forall>r. p = Inr r \<or> (\<exists>q. p = Inl q \<and> isQuotaError q) \<and> s = Inr r \<longrightarrow>
               response out =
                 Sent \<lparr>res_status = 200,
                       res_json = (case result_text r of
                                     None \<Rightarrow> [] | Some t \<Rightarrow> [(''text'', t)])\<rparr>)
          \<and> (\<forall>e. p = Inl e \<and> \<not> isQuotaError e
                   \<or> (\<exists>q. p = Inl q \<and> isQuotaError q) \<and> s = Inl e \<longrightarrow>
               response out =
                 Sent \<lparr>res_status = (case err_status e of
                                      None \<Rightarrow> 500 | Some c \<Rightarrow> if c = 0 then 500 else c),
                       res_json = [(''error'', case err_message e of
                                      None \<Rightarrow> ''Internal Server Error''
                                    | Some m \<Rightarrow> if m = [] then ''Internal Server Error''
                                               else m)]\<rparr>)))
   \<and> ((vout = verify_handler gc req rl u \<and> rl' = rl
        \<or> rateLimiterMiddleware (verify_ip req) now rl = (True, rl')
          \<and> vout = verify_handler_limited gc req now rl u
        \<or> rateLimiterMiddleware (express_ip req) now rl = (True, rl')
          \<and> vout = startServer env gc (ApiVerify, Parsed req) now rl u) \<longrightarrow>
      req_method req = ''POST'' \<longrightarrow>
        (req_body req = Undefined \<longrightarrow>
           response vout =
             Sent \<lparr>res_status = 400,
                   res_json = [(''status'', ''invalid''),
                     (''error'',
                      ''Cannot destructure property 'apiKey' of 'req.body' as it is undefined.'')]\<rparr>)
      \<and> (req_body req = Null \<longrightarrow>
           response vout =
             Sent \<lparr>res_status = 400,
                   res_json = [(''status'', ''invalid''),
                     (''error'',
                      ''Cannot destructure property 'apiKey' of 'req.body' as it is null.'')]\<rparr>)
      \<and> (\<forall>b. req_body req = Object b \<and> \<not> truthy (body_apiKey b) \<longrightarrow>
           response vout =
             Sent \<lparr>res_status = 400, res_json = [(''error'', ''API Key is required'')]\<rparr>)
      \<and> (\<forall>b k r v. req_body req = Object b \<and> body_apiKey b = Some k \<and> k \<noteq> []
            \<and> gc (verify_call k) u = (Inr r, v) \<longrightarrow>
           response vout = Sent \<lparr>res_status = 200, res_json = [(''status'', ''valid'')]\<rparr>)
      \<and> (\<forall>b k e v. req_body req = Object b \<and> body_apiKey b = Some k \<and> k \<noteq> []
            \<and> gc (verify_call k) u = (Inl e, v) \<longrightarrow>
           response vout =
             Sent \<lparr>res_status = 400,
                   res_json = (case err_message e of
                                 None \<Rightarrow> [(''status'', ''invalid'')]
                               | Some m \<Rightarrow> [(''status'', ''invalid''), (''error'', m)])\<rparr>))"
proof -
  have many: "too_many_requests =
                \<lparr>res_status = 429,
                 res_json = [(''error'', ''Too many requests. Please try again later.'')]\<rparr>"
    and refused: "method_not_allowed =
                \<lparr>res_status = 405, res_json = [(''error'', ''Method Not Allowed'')]\<rparr>"
    by (simp_all add: too_many_requests_def method_not_allowed_def json_object_def)
  have rejected: "response (rewrite_handler env gc req now rl u) = Sent too_many_requests"
    if "rateLimiterMiddleware (rewrite_ip req) now rl = (False, x)"
    using that by (simp add: rewrite_handler_def)
  have vrejected: "response (verify_handler_limited gc req now rl u) = Sent too_many_requests"
    if "rateLimiterMiddleware (verify_ip req) now rl = (False, x)"
    using that by (simp add: verify_handler_limited_def)
  have erejected: "response (startServer env gc (route, Parsed req) now rl u) =
                     Sent too_many_requests"
    if "route \<noteq> NotApi" "rateLimiterMiddleware (express_ip req) now rl = (False, x)"
    using that by (simp add: express_server_def)
  have other_method: "(rateLimiterMiddleware (rewrite_ip req) now rl = (True, x) \<longrightarrow>
           response (rewrite_handler env gc req now rl u) = Sent method_not_allowed)
      \<and> response (verify_handler gc req rl u) = Sent method_not_allowed
      \<and> (rateLimiterMiddleware (verify_ip req) now rl = (True, x) \<longrightarrow>
           response (verify_handler_limited gc req now rl u) = Sent method_not_allowed)"
    if "req_method req \<noteq> ''POST''"
    using that
    by (simp add: rewrite_handler_def rewrite_admitted_def verify_handler_limited_def
          verify_handler_def)
  have handed: "response (startServer env gc (route, Parsed req) now rl u) = NextMiddleware"
    if "req_method req \<noteq> ''POST'' \<or> route = ApiOther \<or> route = NotApi"
      "route = NotApi \<or> rateLimiterMiddleware (express_ip req) now rl = (True, x)"
    using that by (auto simp: express_server_def express_routes_def)
  have rewrite: "(req_body req = Undefined \<longrightarrow>
           response out =
             Sent \<lparr>res_status = 500,
                   res_json = [(''error'',
                     ''Cannot destructure property 'text' of 'req.body' as it is undefined.'')]\<rparr>)
      \<and> (req_body req = Null \<longrightarrow>
           response out =
             Sent \<lparr>res_status = 500,
                   res_json = [(''error'',
                     ''Cannot destructure property 'text' of 'req.body' as it is null.'')]\<rparr>)
      \<and> (\<forall>b. req_body req = Object b \<and> \<not> truthy (js_or (body_apiKey b) env) \<longrightarrow>
           response out =
             Sent \<lparr>res_status = 401,
                   res_json = [(''error'',
                     ''API Key is missing. Please configure it in Vercel or provide one.'')]\<rparr>)
      \<and> (\<forall>b k p v s w.
            req_body req = Object b \<and> js_or (body_apiKey b) env = Some k \<and> k \<noteq> []
            \<and> gc (pro_call k (body_text b)) u = (p, v)
            \<and> gc (flash_call k (body_text b)) v = (s, w) \<longrightarrow>
            (\<forall>r. p = Inr r \<or> (\<exists>q. p = Inl q \<and> isQuotaError q) \<and> s = Inr r \<longrightarrow>
               response out =
                 Sent \<lparr>res_status = 200,
                       res_json = (case result_text r of
                                     None \<Rightarrow> [] | Some t \<Rightarrow> [(''text'', t)])\<rparr>)
          \<and> (\<forall>e. p = Inl e \<and> \<not> isQuotaError e
                   \<or> (\<exists>q. p = Inl q \<and> isQuotaError q) \<and> s = Inl e \<longrightarrow>
               response out =
                 Sent \<lparr>res_status = (case err_status e of
                                      None \<Rightarrow> 500 | Some c \<Rightarrow> if c = 0 then 500 else c),
                       res_json = [(''error'', case err_message e of
                                      None \<Rightarrow> ''Internal Server Error''
                                    | Some m \<Rightarrow> if m = [] then ''Internal Server Error''
                                               else m)]\<rparr>))"
    if which: "rateLimiterMiddleware (rewrite_ip req) now rl = (True, rl')
          \<and> out = rewrite_handler env gc req now rl u
        \<or> rateLimiterMiddleware (express_ip req) now rl = (True, rl')
          \<and> out = startServer env gc (ApiRewrite, Parsed req) now rl u"
      and post: "req_method req = ''POST''"
  proof -
    have out: "out = (case rewrite_try env gc req u of
                  (res, cs, u') \<Rightarrow>
                    \<lparr>response = Sent res, calls = cs, limiter = rl', upstream = u'\<rparr>)"
      using which post by (rule rewrite_post_outcome)
    have nobody: "response out = Sent (server_error (rewrite_type_error (req_body req)))"
      if "req_body req = Undefined \<or> req_body req = Null"
      unfolding out by (simp add: rewrite_try_no_body [OF that])
    have nokey: "response out = Sent key_missing"
      if "req_body req = Object b" "\<not> truthy (js_or (body_apiKey b) env)" for b
      unfolding out by (simp add: rewrite_try_no_key [OF that])
    have called: "(\<forall>r. p = Inr r \<or> (\<exists>q. p = Inl q \<and> isQuotaError q) \<and> s = Inr r \<longrightarrow>
               response out =
                 Sent \<lparr>res_status = 200,
                       res_json = (case result_text r of
                                     None \<Rightarrow> [] | Some t \<Rightarrow> [(''text'', t)])\<rparr>)
          \<and> (\<forall>e. p = Inl e \<and> \<not> isQuotaError e
                   \<or> (\<exists>q. p = Inl q \<and> isQuotaError q) \<and> s = Inl e \<longrightarrow>
               response out =
                 Sent \<lparr>res_status = (case err_status e of
                                      None \<Rightarrow> 500 | Some c \<Rightarrow> if c = 0 then 500 else c),
                       res_json = [(''error'', case err_message e of
                                      None \<Rightarrow> ''Internal Server Error''
                                    | Some m \<Rightarrow> if m = [] then ''Internal Server Error''
                                               else m)]\<rparr>)"
      if "req_body req = Object b" "js_or (body_apiKey b) env = Some k" "k \<noteq> []"
        "gc (pro_call k (body_text b)) u = (p, v)" "gc (flash_call k (body_text b)) v = (s, w)"
      for b k p v s w
      unfolding out rewrite_try_cases [OF that] server_error_explicit text_payload
      by (cases p; cases s) auto
    show ?thesis
      using nobody nokey called
      by (simp add: server_error_explicit rewrite_type_error_def key_missing_def
            json_object_def)
  qed
  have verify: "(req_body req = Undefined \<longrightarrow>
           response vout =
             Sent \<lparr>res_status = 400,
                   res_json = [(''status'', ''invalid''),
                     (''error'',
                      ''Cannot destructure property 'apiKey' of 'req.body' as it is undefined.'')]\<rparr>)
      \<and> (req_body req = Null \<longrightarrow>
           response vout =
             Sent \<lparr>res_status = 400,
                   res_json = [(''status'', ''invalid''),
                     (''error'',
                      ''Cannot destructure property 'apiKey' of 'req.body' as it is null.'')]\<rparr>)
      \<and> (\<forall>b. req_body req = Object b \<and> \<not> truthy (body_apiKey b) \<longrightarrow>
           response vout =
             Sent \<lparr>res_status = 400, res_json = [(''error'', ''API Key is required'')]\<rparr>)
      \<and> (\<forall>b k r v. req_body req = Object b \<and> body_apiKey b = Some k \<and> k \<noteq> []
            \<and> gc (verify_call k) u = (Inr r, v) \<longrightarrow>
           response vout = Sent \<lparr>res_status = 200, res_json = [(''status'', ''valid'')]\<rparr>)
      \<and> (\<forall>b k e v. req_body req = Object b \<and> body_apiKey b = Some k \<and> k \<noteq> []
            \<and> gc (verify_call k) u = (Inl e, v) \<longrightarrow>
           response vout =
             Sent \<lparr>res_status = 400,
                   res_json = (case err_message e of
                                 None \<Rightarrow> [(''status'', ''invalid'')]
                               | Some m \<Rightarrow> [(''status'', ''invalid''), (''error'', m)])\<rparr>)"
    if which: "vout = verify_handler gc req rl u \<and> rl' = rl
        \<or> rateLimiterMiddleware (verify_ip req) now rl = (True, rl')
          \<and> vout = verify_handler_limited gc req now rl u
        \<or> rateLimiterMiddleware (express_ip req) now rl = (True, rl')
          \<and> vout = startServer env gc (ApiVerify, Parsed req) now rl u"
      and post: "req_method req = ''POST''"
  proof -
    have out: "vout = (case verify_try gc req u of
                  (res, cs, u') \<Rightarrow>
                    \<lparr>response = Sent res, calls = cs, limiter = rl', upstream = u'\<rparr>)"
      using which post by (rule verify_post_outcome)
    show ?thesis
      unfolding out
      by (auto simp: verify_try_def verify_call_def truthy_def json_object_def
            verify_invalid_explicit verify_type_error_def
            split: option.splits sum.splits prod.splits)
  qed
  show ?thesis
    apply (intro conjI)
    subgoal by (rule impI) (rule rejected [unfolded many])
    subgoal by (rule impI) (rule vrejected [unfolded many])
    subgoal by (intro impI) (rule erejected [unfolded many])
    subgoal by (rule impI) (rule other_method [unfolded refused])
    subgoal by (intro impI) (rule handed)
    subgoal by simp
    subgoal by (intro impI) (rule rewrite)
    subgoal by (intro impI) (rule verify)
    done
qed

theorem response_bodies_witness:
  "response (rewrite_handler None scripted sample_post 0
               [''203.0.113.7'' \<mapsto> \<lparr>count = 20, lastReset = 0\<rparr>] []) =
     Sent \<lparr>res_status = 429,
           res_json = [(''error'', ''Too many requests. Please try again later.'')]\<rparr>
   \<and> response (verify_handler_limited scripted sample_post 0
                 [''203.0.113.7'' \<mapsto> \<lparr>count = 20, lastReset = 0\<rparr>] []) =
       Sent \<lparr>res_status = 429,
             res_json = [(''error'', ''Too many requests. Please try again later.'')]\<rparr>
   \<and> response (startServer None scripted (ApiVerify, Parsed sample_post) 0
                 [''203.0.113.7'' \<mapsto> \<lparr>count = 20, lastReset = 0\<rparr>] []) =
       Sent \<lparr>res_status = 429,
             res_json = [(''error'', ''Too many requests. Please try again later.'')]\<rparr>
   \<and> response (rewrite_handler None scripted (sample_post\<lparr>req_method := ''GET''\<rparr>) 0
                 Map.empty []) =
       Sent \<lparr>res_status = 405, res_json = [(''error'', ''Method Not Allowed'')]\<rparr>
   \<and> response (verify_handler scripted (sample_post\<lparr>req_method := ''GET''\<rparr>) Map.empty []) =
       Sent \<lparr>res_status = 405, res_json = [(''error'', ''Method Not Allowed'')]\<rparr>
   \<and> response (startServer None scripted
                 (ApiRewrite, Parsed (sample_post\<lparr>req_method := ''GET''\<rparr>)) 0 Map.empty []) =
       NextMiddleware
   \<and> response (rewrite_handler None scripted (sample_post\<lparr>req_body := Undefined\<rparr>) 0
                 Map.empty []) =
       Sent \<lparr>res_status = 500,
             res_json = [(''error'',
               ''Cannot destructure property 'text' of 'req.body' as it is undefined.'')]\<rparr>
   \<and> response (rewrite_handler None scripted (sample_with_key None) 0 Map.empty []) =
       Sent \<lparr>res_status = 401,
             res_json = [(''error'',
               ''API Key is missing. Please configure it in Vercel or provide one.'')]\<rparr>
   \<and> response (rewrite_handler None scripted sample_post 0 Map.empty
                 [Inl quota_error, Inr \<lparr>result_text = Some ''Nice weather today.''\<rparr>]) =
       Sent \<lparr>res_status = 200, res_json = [(''text'', ''Nice weather today.'')]\<rparr>
   \<and> response (startServer None scripted (ApiRewrite, Parsed sample_post) 0 Map.empty
                 [Inl network_error]) =
       Sent \<lparr>res_status = 500, res_json = [(''error'', ''fetch failed'')]\<rparr>
   \<and> response (verify_handler scripted (sample_post\<lparr>req_body := Null\<rparr>) Map.empty []) =
       Sent \<lparr>res_status = 400,
             res_json = [(''status'', ''invalid''),
               (''error'', ''Cannot destructure property 'apiKey' of 'req.body' as it is null.'')]\<rparr>
   \<and> response (verify_handler scripted (sample_with_key None) Map.empty []) =
       Sent \<lparr>res_status = 400, res_json = [(''error'', ''API Key is required'')]\<rparr>
   \<and> response (verify_handler_limited scripted sample_post 0 Map.empty
                 [Inr \<lparr>result_text = Some ''Hello''\<rparr>]) =
       Sent \<lparr>res_status = 200, res_json = [(''status'', ''valid'')]\<rparr>
   \<and> response (startServer None scripted (ApiVerify, Parsed sample_post) 0 Map.empty
                 [Inl quota_error]) =
       Sent \<lparr>res_status = 400,
             res_json = [(''status'', ''invalid''), (''error'', ''model overloaded'')]\<rparr>"
proof -
  let ?get = "sample_post\<lparr>req_method := ''GET''\<rparr>"
  let ?undef = "sample_post\<lparr>req_body := Undefined\<rparr>"
  let ?null = "sample_post\<lparr>req_body := Null\<rparr>"
  let ?nokey = "sample_with_key None"
  let ?key = "''user-key''" and ?body = "Some ''The weather is nice today.''"
  let ?b = "\<lparr>body_text = ?body, body_apiKey = Some ?key\<rparr>"
  let ?n = "\<lparr>body_text = ?body, body_apiKey = None\<rparr>"
  let ?one = "[''203.0.113.7'' \<mapsto> \<lparr>count = 1, lastReset = 0\<rparr>]"
  let ?vone = "[''203.0.113.7'' \<mapsto> \<lparr>count = 1, lastReset = 0\<rparr>]"
  let ?full = "[''203.0.113.7'' \<mapsto> \<lparr>count = 20, lastReset = 0\<rparr>]"
  let ?vfull = "[''203.0.113.7'' \<mapsto> \<lparr>count = 20, lastReset = 0\<rparr>]"
  let ?r = "\<lparr>result_text = Some ''Nice weather today.''\<rparr>"
  let ?o7 = "rewrite_handler None scripted ?undef 0 Map.empty []"
  let ?o8 = "rewrite_handler None scripted ?nokey 0 Map.empty []"
  let ?o9 = "rewrite_handler None scripted sample_post 0 Map.empty [Inl quota_error, Inr ?r]"
  let ?o10 = "startServer None scripted (ApiRewrite, Parsed sample_post) 0 Map.empty
                [Inl network_error]"
  let ?o11 = "verify_handler scripted ?null Map.empty []"
  let ?o12 = "verify_handler scripted ?nokey Map.empty []"
  let ?o13 = "verify_handler_limited scripted sample_post 0 Map.empty
                [Inr \<lparr>result_text = Some ''Hello''\<rparr>]"
  let ?o14 = "startServer None scripted (ApiVerify, Parsed sample_post) 0 Map.empty
                [Inl quota_error]"
  have ips: "rewrite_ip sample_post = StringKey ''203.0.113.7''"
    "verify_ip sample_post = StringKey ''203.0.113.7''"
    "express_ip sample_post = StringKey ''203.0.113.7''"
    by (simp_all add: rewrite_ip_def verify_ip_def express_ip_def sample_post_def
          first_forwarded_def js_or_def truthy_def)
  have ips': "rewrite_ip (r\<lparr>req_method := m\<rparr>) = rewrite_ip r"
    "rewrite_ip (r\<lparr>req_body := c\<rparr>) = rewrite_ip r"
    "verify_ip (r\<lparr>req_body := c\<rparr>) = verify_ip r"
    "express_ip (r\<lparr>req_method := m\<rparr>) = express_ip r" for r m c
    by (simp_all add: rewrite_ip_def verify_ip_def express_ip_def)
  have full: "rateLimiterMiddleware (rewrite_ip sample_post) 0 ?full = (False, ?full)"
    "rateLimiterMiddleware (verify_ip sample_post) 0 ?vfull = (False, ?vfull)"
    "rateLimiterMiddleware (express_ip sample_post) 0 ?full = (False, ?full)"
    by (simp_all add: ips rateLimiterMiddleware_def rateLimit_get_def rateLimit_set_def
          MAX_REQUESTS_def WINDOW_MS_def)
  have fresh: "rateLimiterMiddleware (rewrite_ip sample_post) 0 Map.empty = (True, ?one)"
    "rateLimiterMiddleware (verify_ip sample_post) 0 Map.empty = (True, ?vone)"
    "rateLimiterMiddleware (express_ip sample_post) 0 Map.empty = (True, ?one)"
    by (simp_all add: ips rateLimiterMiddleware_def rateLimit_get_def rateLimit_set_def
          MAX_REQUESTS_def)
  have get: "req_method ?get \<noteq> ''POST''"
    by simp
  have post: "req_method ?undef = ''POST''" "req_method ?nokey = ''POST''"
    "req_method sample_post = ''POST''" "req_method ?null = ''POST''"
    by (simp_all add: sample_with_key_fields sample_post_def)
  have route: "ApiVerify \<noteq> NotApi"
    by simp
  have c1: "response (rewrite_handler None scripted sample_post 0 ?full []) =
     Sent \<lparr>res_status = 429,
           res_json = [(''error'', ''Too many requests. Please try again later.'')]\<rparr>"
    by (rule response_bodies [THEN conjunct1, THEN mp, OF full(1)])
  have c2: "response (verify_handler_limited scripted sample_post 0 ?vfull []) =
       Sent \<lparr>res_status = 429,
             res_json = [(''error'', ''Too many requests. Please try again later.'')]\<rparr>"
    by (rule response_bodies [THEN conjunct2, THEN conjunct1, THEN mp, OF full(2)])
  have c3: "response (startServer None scripted (ApiVerify, Parsed sample_post) 0 ?full []) =
       Sent \<lparr>res_status = 429,
             res_json = [(''error'', ''Too many requests. Please try again later.'')]\<rparr>"
    by (rule response_bodies [THEN conjunct2, THEN conjunct2, THEN conjunct1, THEN mp,
          OF route, THEN mp, OF full(3)])
  note refused = response_bodies [where req = ?get and now = 0 and rl = Map.empty
      and x = ?one, THEN conjunct2, THEN conjunct2, THEN conjunct2, THEN conjunct1,
      THEN mp, OF get]
  have c4: "response (rewrite_handler None scripted ?get 0 Map.empty []) =
       Sent \<lparr>res_status = 405, res_json = [(''error'', ''Method Not Allowed'')]\<rparr>"
    by (rule refused [THEN conjunct1, THEN mp]) (simp add: ips' fresh)
  have c5: "response (verify_handler scripted ?get Map.empty []) =
       Sent \<lparr>res_status = 405, res_json = [(''error'', ''Method Not Allowed'')]\<rparr>"
    by (rule refused [THEN conjunct2, THEN conjunct1])
  have c6: "response (startServer None scripted (ApiRewrite, Parsed ?get) 0 Map.empty []) =
       NextMiddleware"
    by (rule response_bodies [where req = ?get and now = 0 and rl = Map.empty
          and x = ?one and route = ApiRewrite, THEN conjunct2, THEN conjunct2,
          THEN conjunct2, THEN conjunct2, THEN conjunct1, THEN mp, THEN mp])
      (simp_all add: ips' fresh)
  have adm7: "rateLimiterMiddleware (rewrite_ip ?undef) 0 Map.empty = (True, ?one)
                \<and> ?o7 = rewrite_handler None scripted ?undef 0 Map.empty []
              \<or> rateLimiterMiddleware (express_ip ?undef) 0 Map.empty = (True, ?one)
                \<and> ?o7 = startServer None scripted (ApiRewrite, Parsed ?undef) 0 Map.empty []"
    by (simp add: ips' fresh)
  have adm8: "rateLimiterMiddleware (rewrite_ip ?nokey) 0 Map.empty = (True, ?one)
                \<and> ?o8 = rewrite_handler None scripted ?nokey 0 Map.empty []
              \<or> rateLimiterMiddleware (express_ip ?nokey) 0 Map.empty = (True, ?one)
                \<and> ?o8 = startServer None scripted (ApiRewrite, Parsed ?nokey) 0 Map.empty []"
    by (simp add: sample_with_key_fields fresh)
  have adm9: "rateLimiterMiddleware (rewrite_ip sample_post) 0 Map.empty = (True, ?one)
                \<and> ?o9 = rewrite_handler None scripted sample_post 0 Map.empty
                          [Inl quota_error, Inr ?r]
              \<or> rateLimiterMiddleware (express_ip sample_post) 0 Map.empty = (True, ?one)
                \<and> ?o9 = startServer None scripted (ApiRewrite, Parsed sample_post) 0
                          Map.empty [Inl quota_error, Inr ?r]"
    by (simp add: fresh)
  have adm10: "rateLimiterMiddleware (rewrite_ip sample_post) 0 Map.empty = (True, ?one)
                \<and> ?o10 = rewrite_handler None scripted sample_post 0 Map.empty
                           [Inl network_error]
              \<or> rateLimiterMiddleware (express_ip sample_post) 0 Map.empty = (True, ?one)
                \<and> ?o10 = startServer None scripted (ApiRewrite, Parsed sample_post) 0
                           Map.empty [Inl network_error]"
    by (simp add: fresh)
  note rw = response_bodies [THEN conjunct2, THEN conjunct2, THEN conjunct2, THEN conjunct2,
      THEN conjunct2, THEN conjunct2, THEN conjunct1, THEN mp]
  have undef: "req_body ?undef = Undefined" and null: "req_body ?null = Null"
    by simp_all
  have nokey: "req_body ?nokey = Object ?n \<and> \<not> truthy (js_or (body_apiKey ?n) None)"
    by (simp add: sample_with_key_fields js_or_def truthy_def)
  have vnokey: "req_body ?nokey = Object ?n \<and> \<not> truthy (body_apiKey ?n)"
    by (simp add: sample_with_key_fields truthy_def)
  have called9: "req_body sample_post = Object ?b \<and> js_or (body_apiKey ?b) None = Some ?key
      \<and> ?key \<noteq> []
      \<and> scripted (pro_call ?key (body_text ?b)) [Inl quota_error, Inr ?r] =
          (Inl quota_error, [Inr ?r])
      \<and> scripted (flash_call ?key (body_text ?b)) [Inr ?r] = (Inr ?r, [])"
    by (simp add: sample_post_fields js_or_def truthy_def)
  have called10: "req_body sample_post = Object ?b \<and> js_or (body_apiKey ?b) None = Some ?key
      \<and> ?key \<noteq> []
      \<and> scripted (pro_call ?key (body_text ?b)) [Inl network_error] =
          (Inl network_error, [])
      \<and> scripted (flash_call ?key (body_text ?b)) [] = (Inl network_error, [])"
    by (simp add: sample_post_fields js_or_def truthy_def)
  have c7: "response ?o7 =
       Sent \<lparr>res_status = 500,
             res_json = [(''error'',
               ''Cannot destructure property 'text' of 'req.body' as it is undefined.'')]\<rparr>"
    by (rule rw [OF adm7, THEN mp, OF post(1), THEN conjunct1, THEN mp, OF undef])
  have c8: "response ?o8 =
       Sent \<lparr>res_status = 401,
             res_json = [(''error'',
               ''API Key is missing. Please configure it in Vercel or provide one.'')]\<rparr>"
    by (rule rw [OF adm8, THEN mp, OF post(2), THEN conjunct2, THEN conjunct2,
          THEN conjunct1, THEN spec, THEN mp, OF nokey])
  have c9: "response ?o9 =
       Sent \<lparr>res_status = 200,
             res_json = (case result_text ?r of None \<Rightarrow> [] | Some t \<Rightarrow> [(''text'', t)])\<rparr>"
    by (rule rw [OF adm9, THEN mp, OF post(3), THEN conjunct2, THEN conjunct2,
          THEN conjunct2, THEN spec, THEN spec, THEN spec, THEN spec, THEN spec, THEN spec,
          THEN mp, OF called9, THEN conjunct1, THEN spec, THEN mp])
      (simp add: sample_errors)
  have c10: "response ?o10 =
       Sent \<lparr>res_status = (case err_status network_error of
                            None \<Rightarrow> 500 | Some c \<Rightarrow> if c = 0 then 500 else c),
             res_json = [(''error'', case err_message network_error of
                            None \<Rightarrow> ''Internal Server Error''
                          | Some m \<Rightarrow> if m = [] then ''Internal Server Error'' else m)]\<rparr>"
    by (rule rw [OF adm10, THEN mp, OF post(3), THEN conjunct2, THEN conjunct2,
          THEN conjunct2, THEN spec, THEN spec, THEN spec, THEN spec, THEN spec, THEN spec,
          THEN mp, OF called10, THEN conjunct2, THEN spec, THEN mp])
      (simp add: sample_errors)
  have adm11: "?o11 = verify_handler scripted ?null Map.empty []
                 \<and> Map.empty = (Map.empty :: rate_map)
            \<or> rateLimiterMiddleware (verify_ip ?null) 0 Map.empty = (True, Map.empty)
                 \<and> ?o11 = verify_handler_limited scripted ?null 0 Map.empty []
            \<or> rateLimiterMiddleware (express_ip ?null) 0 Map.empty = (True, Map.empty)
                 \<and> ?o11 = startServer None scripted (ApiVerify, Parsed ?null) 0 Map.empty []"
    by simp
  have adm12: "?o12 = verify_handler scripted ?nokey Map.empty []
                 \<and> Map.empty = (Map.empty :: rate_map)
            \<or> rateLimiterMiddleware (verify_ip ?nokey) 0 Map.empty = (True, Map.empty)
                 \<and> ?o12 = verify_handler_limited scripted ?nokey 0 Map.empty []
            \<or> rateLimiterMiddleware (express_ip ?nokey) 0 Map.empty = (True, Map.empty)
                 \<and> ?o12 = startServer None scripted (ApiVerify, Parsed ?nokey) 0 Map.empty []"
    by simp
  have c11: "response ?o11 =
       Sent \<lparr>res_status = 400,
             res_json = [(''status'', ''invalid''),
               (''error'', ''Cannot destructure property 'apiKey' of 'req.body' as it is null.'')]\<rparr>"
    by (rule response_bodies [where rl = "Map.empty :: rate_map"
          and rl' = "Map.empty :: rate_map" and now = 0 and env = None,
          THEN conjunct2, THEN conjunct2, THEN conjunct2, THEN conjunct2, THEN conjunct2,
          THEN conjunct2, THEN conjunct2, THEN mp, OF adm11, THEN mp, OF post(4), THEN conjunct2,
          THEN conjunct1, THEN mp, OF null])
  have c12: "response ?o12 =
       Sent \<lparr>res_status = 400, res_json = [(''error'', ''API Key is required'')]\<rparr>"
    by (rule response_bodies [where rl = "Map.empty :: rate_map"
          and rl' = "Map.empty :: rate_map" and now = 0 and env = None,
          THEN conjunct2, THEN conjunct2, THEN conjunct2, THEN conjunct2, THEN conjunct2,
          THEN conjunct2, THEN conjunct2, THEN mp, OF adm12, THEN mp, OF post(2), THEN conjunct2,
          THEN conjunct2, THEN conjunct1, THEN spec, THEN mp, OF vnokey])
  have adm13: "?o13 = verify_handler scripted sample_post Map.empty
                        [Inr \<lparr>result_text = Some ''Hello''\<rparr>] \<and> ?one = Map.empty
            \<or> rateLimiterMiddleware (verify_ip sample_post) 0 Map.empty = (True, ?one)
                 \<and> ?o13 = verify_handler_limited scripted sample_post 0 Map.empty
                            [Inr \<lparr>result_text = Some ''Hello''\<rparr>]
            \<or> rateLimiterMiddleware (express_ip sample_post) 0 Map.empty = (True, ?one)
                 \<and> ?o13 = startServer None scripted (ApiVerify, Parsed sample_post) 0
                            Map.empty [Inr \<lparr>result_text = Some ''Hello''\<rparr>]"
    by (simp add: fresh)
  have adm14: "?o14 = verify_handler scripted sample_post Map.empty [Inl quota_error]
                 \<and> ?one = Map.empty
            \<or> rateLimiterMiddleware (verify_ip sample_post) 0 Map.empty = (True, ?one)
                 \<and> ?o14 = verify_handler_limited scripted sample_post 0 Map.empty
                            [Inl quota_error]
            \<or> rateLimiterMiddleware (express_ip sample_post) 0 Map.empty = (True, ?one)
                 \<and> ?o14 = startServer None scripted (ApiVerify, Parsed sample_post) 0
                            Map.empty [Inl quota_error]"
    by (simp add: fresh)
  have called13: "req_body sample_post = Object ?b \<and> body_apiKey ?b = Some ?key \<and> ?key \<noteq> []
      \<and> scripted (verify_call ?key) [Inr \<lparr>result_text = Some ''Hello''\<rparr>] =
          (Inr \<lparr>result_text = Some ''Hello''\<rparr>, [])"
    by (simp add: sample_post_fields)
  have called14: "req_body sample_post = Object ?b \<and> body_apiKey ?b = Some ?key \<and> ?key \<noteq> []
      \<and> scripted (verify_call ?key) [Inl quota_error] = (Inl quota_error, [])"
    by (simp add: sample_post_fields)
  have c13: "response ?o13 = Sent \<lparr>res_status = 200, res_json = [(''status'', ''valid'')]\<rparr>"
    by (rule response_bodies [where rl = "Map.empty :: rate_map" and rl' = ?one
          and now = 0 and env = None,
          THEN conjunct2, THEN conjunct2, THEN conjunct2, THEN conjunct2, THEN conjunct2,
          THEN conjunct2, THEN conjunct2, THEN mp, OF adm13, THEN mp, OF post(3),
          THEN conjunct2, THEN conjunct2, THEN conjunct2, THEN conjunct1,
          THEN spec, THEN spec, THEN spec, THEN spec, THEN mp, OF called13])
  have c14: "response ?o14 =
       Sent \<lparr>res_status = 400,
             res_json = (case err_message quota_error of
                           None \<Rightarrow> [(''status'', ''invalid'')]
                         | Some m \<Rightarrow> [(''status'', ''invalid''), (''error'', m)])\<rparr>"
    by (rule response_bodies [where rl = "Map.empty :: rate_map" and rl' = ?one
          and now = 0 and env = None,
          THEN conjunct2, THEN conjunct2, THEN conjunct2, THEN conjunct2, THEN conjunct2,
          THEN conjunct2, THEN conjunct2, THEN mp, OF adm14, THEN mp, OF post(3),
          THEN conjunct2, THEN conjunct2, THEN conjunct2, THEN conjunct2,
          THEN spec, THEN spec, THEN spec, THEN spec, THEN mp, OF called14])
  show ?thesis
    unfolding c1 c2 c3 c4 c5 c6 c7 c8 c9 c10 c11 c12 c13 c14
    by (simp add: network_error_def quota_error_def)
qed

end
